theory Spec2Isabelle
  imports
    Complex_Main
    "HOL-Library.Char_ord"
    "HOL-Library.List_Lexorder"
    "HOL-Library.Product_Lexorder"
begin

section \<open>The memento collection model of hypercane/reduce/remove\_offtopic.py\<close>

text \<open>
  A shallow embedding of \<^verbatim>\<open>HypercaneMementoCollectionModel\<close> and of
  \<^verbatim>\<open>detect_off_topic\<close>. The object's attributes are the fields of a record that
  every operation takes and returns; a Python exception is the \<open>Inl\<close> branch of a sum.
  The libraries the class calls (requests, otmt, justext, simhash, aiu, datetime) are not
  part of the repository: each enters as a function argument that carries the name it has
  in the source.
\<close>

subsection \<open>Exceptions and HTTP responses\<close>

text \<open>
  The exceptions of \<^verbatim>\<open>requests.exceptions\<close> that the source names. Each carries
  the text of \<^verbatim>\<open>repr(e)\<close>. \<open>RequestException\<close> stands for every request exception
  that is neither a \<^verbatim>\<open>ConnectionError\<close> nor a \<^verbatim>\<open>TooManyRedirects\<close>
  (a read timeout, for example); all three are caught by
  \<^verbatim>\<open>except RequestException\<close>.
\<close>

datatype request_exception =
    ConnectionError string
  | TooManyRedirects string
  | RequestException string

fun repr :: "request_exception \<Rightarrow> string" where
  "repr (ConnectionError s) = s"
| "repr (TooManyRedirects s) = s"
| "repr (RequestException s) = s"

text \<open>Everything an operation of the model can raise.\<close>

datatype exn =
    Raised request_exception
  | CollectionModelMementoErrorException string
  | CollectionModelBoilerPlateRemovalFailureException string
  | MalformedLinkFormatTimeMap string
  | KeyError string
  | ValueError string
  | IndexError

text \<open>
  A response of \<^verbatim>\<open>session.get\<close>. The header names are stored in lower case: the
  headers of requests are a case-insensitive dictionary and the source only asks for
  \<^verbatim>\<open>'memento-datetime'\<close>.
\<close>

record response =
  status_code :: nat
  headers :: "(string \<times> string) list"
  text_of :: string

text \<open>
  \<^verbatim>\<open>errorinformation\<close> is a \<^verbatim>\<open>str\<close> (the header check of
  \<^verbatim>\<open>addManyMementos\<close>) or a \<^verbatim>\<open>bytes\<close> (the \<^verbatim>\<open>repr\<close> of an exception) at
  every call of \<^verbatim>\<open>addMementoError\<close> in the source.
\<close>

datatype error_information = Str string | Bytes string

subsection \<open>The three collections and the model\<close>

text \<open>
  A MongoDB collection is the list of its documents in insertion order:
  \<^verbatim>\<open>insert_one\<close> appends, \<^verbatim>\<open>find_one\<close> is \<^const>\<open>find\<close>, \<^verbatim>\<open>find\<close> is
  \<^const>\<open>filter\<close>. The key \<^verbatim>\<open>"raw simhash"\<close> of a document of
  \<^verbatim>\<open>derivedvalues\<close> may be missing (the source catches the \<^verbatim>\<open>KeyError\<close>), hence
  the option.
\<close>

record error_document =
  err_urim :: string
  err_error_information :: error_information

record bpfree_document =
  bp_urim :: string
  bp_boilerplate_free_content :: string
  bp_algorithm :: string

record derived_document =
  dv_urim :: string
  dv_raw_simhash :: "string option"

text \<open>
  The attributes of the object. \<open>session\<close> is \<^verbatim>\<open>self.session.get\<close>: the response for
  a URI, or the request exception the fetch raises. \<open>justext_calls\<close> and
  \<open>Simhash_calls\<close> are not attributes of the class: they count the calls of the two
  external functions \<^verbatim>\<open>justext\<close> and \<^verbatim>\<open>Simhash\<close>, so that "no extraction is
  performed" can be stated.
\<close>

record model =
  session :: "string \<Rightarrow> request_exception + response"
  error_collection :: "error_document list"
  bpfree_collection :: "bpfree_document list"
  derived_collection :: "derived_document list"
  urimlist :: "string list"
  uritlist :: "string list"
  justext_calls :: nat
  Simhash_calls :: nat

text \<open>\<^verbatim>\<open>__init__\<close> on a database whose collections are empty.\<close>

definition init :: "(string \<Rightarrow> request_exception + response) \<Rightarrow> model" where
  "init s = \<lparr> session = s, error_collection = [], bpfree_collection = [],
              derived_collection = [], urimlist = [], uritlist = [],
              justext_calls = 0, Simhash_calls = 0 \<rparr>"

subsection \<open>TimeMaps\<close>

definition addTimeMap :: "model \<Rightarrow> string \<Rightarrow> (exn + unit) \<times> model" where
  "addTimeMap self urit =
     (case session self urit of
        Inl e \<Rightarrow> (Inl (Raised e), self)
      | Inr r \<Rightarrow> (Inr (), self\<lparr> uritlist := uritlist self @ [urit] \<rparr>))"

text \<open>
  \<open>convert_LinkTimeMap_to_dict\<close> is the parser of the aiu package: the dictionary of
  the TimeMap, or the message of its \<^verbatim>\<open>MalformedLinkFormatTimeMap\<close>.
\<close>

definition getTimeMap ::
  "(string \<Rightarrow> string + 'd) \<Rightarrow> model \<Rightarrow> string \<Rightarrow> exn + 'd" where
  "getTimeMap convert_LinkTimeMap_to_dict self urit =
     (case session self urit of
        Inl e \<Rightarrow> Inl (Raised e)
      | Inr r \<Rightarrow>
          (case convert_LinkTimeMap_to_dict (text_of r) of
             Inl msg \<Rightarrow> Inl (MalformedLinkFormatTimeMap msg)
           | Inr d \<Rightarrow> Inr d))"

subsection \<open>Mementos and their errors\<close>

definition addMementoError :: "model \<Rightarrow> string \<Rightarrow> error_information \<Rightarrow> model" where
  "addMementoError self urim errorinformation =
     self\<lparr> error_collection := error_collection self @
       [\<lparr> err_urim = urim, err_error_information = errorinformation \<rparr>] \<rparr>"

text \<open>
  The \<^verbatim>\<open>except (ConnectionError, TooManyRedirects)\<close> clause of \<^verbatim>\<open>addMemento\<close>:
  any other exception leaves the method.
\<close>

fun addMemento_except ::
  "model \<Rightarrow> string \<Rightarrow> request_exception \<Rightarrow> (exn + unit) \<times> model" where
  "addMemento_except self urim (ConnectionError s) =
     (Inr (), addMementoError self urim (Bytes (repr (ConnectionError s))))"
| "addMemento_except self urim (TooManyRedirects s) =
     (Inr (), addMementoError self urim (Bytes (repr (TooManyRedirects s))))"
| "addMemento_except self urim (RequestException s) =
     (Inl (Raised (RequestException s)), self)"

definition addMemento ::
  "(string \<Rightarrow> string) \<Rightarrow> model \<Rightarrow> string \<Rightarrow> (exn + unit) \<times> model" where
  "addMemento generate_raw_urim self urim =
     (case session self urim of
        Inl e \<Rightarrow> addMemento_except self urim e
      | Inr r \<Rightarrow>
          (let raw_urim = generate_raw_urim urim in
           case session self raw_urim of
             Inl e \<Rightarrow> addMemento_except self urim e
           | Inr r' \<Rightarrow> (Inr (), self\<lparr> urimlist := urimlist self @ [urim] \<rparr>)))"

definition getMementoContent ::
  "(string \<Rightarrow> string) \<Rightarrow> model \<Rightarrow> string \<Rightarrow> exn + string" where
  "getMementoContent generate_raw_urim self urim =
     (let raw_urim = generate_raw_urim urim in
      case session self raw_urim of
        Inl e \<Rightarrow> Inl (Raised e)
      | Inr r \<Rightarrow> Inr (text_of r))"

text \<open>
  \<open>None\<close> is Python's \<^verbatim>\<open>None\<close>. Where no document is found the source tests
  \<^verbatim>\<open>urim in self.urimlist\<close> and returns \<^verbatim>\<open>None\<close>; where the test fails the method
  ends without a \<^verbatim>\<open>return\<close>, which is \<^verbatim>\<open>None\<close> as well.
\<close>

definition getMementoErrorInformation :: "model \<Rightarrow> string \<Rightarrow> error_information option" where
  "getMementoErrorInformation self urim =
     (case find (\<lambda>d. err_urim d = urim) (error_collection self) of
        None \<Rightarrow> (if urim \<in> set (urimlist self) then None else None)
      | Some result \<Rightarrow> Some (err_error_information result))"

definition getMementoHeaders :: "model \<Rightarrow> string \<Rightarrow> exn + (string \<times> string) list" where
  "getMementoHeaders self urim =
     (case session self urim of
        Inl e \<Rightarrow> Inl (Raised e)
      | Inr r \<Rightarrow> Inr (headers r))"

definition getMementoURIList :: "model \<Rightarrow> string list" where
  "getMementoURIList self = urimlist self"

definition getTimeMapURIList :: "model \<Rightarrow> string list" where
  "getTimeMapURIList self = uritlist self"

subsection \<open>Batch ingestion\<close>

text \<open>
  A future of \<^verbatim>\<open>FuturesSession.get\<close>. The loop of \<^verbatim>\<open>addManyMementos\<close> only polls:
  time is counted in polls, \<open>settles_at = Some t\<close> says that \<^verbatim>\<open>done()\<close> is true from
  the poll number \<open>t\<close> on, \<open>None\<close> that the fetch never settles. \<open>outcome\<close> is what
  \<^verbatim>\<open>result()\<close> gives once it has settled.
\<close>

record future =
  settles_at :: "nat option"
  outcome :: "request_exception + response"

definition future_done :: "future \<Rightarrow> nat \<Rightarrow> bool" where
  "future_done f now = (case settles_at f of None \<Rightarrow> False | Some t \<Rightarrow> t \<le> now)"

text \<open>
  \<^verbatim>\<open>futuressession.get(uri)\<close>: the session of the model fetches in the background;
  \<open>delay\<close> gives the poll at which the fetch of a URI settles.
\<close>

definition futuressession_get ::
  "(string \<Rightarrow> nat option) \<Rightarrow> model \<Rightarrow> string \<Rightarrow> future" where
  "futuressession_get delay self uri = \<lparr> settles_at = delay uri, outcome = session self uri \<rparr>"

text \<open>The body of the first loop: one URI-M is queued and two fetches are issued.\<close>

definition submit ::
  "(string \<Rightarrow> string) \<Rightarrow> (string \<Rightarrow> nat option) \<Rightarrow> model \<Rightarrow>
   string list \<times> (string \<rightharpoonup> future) \<Rightarrow> string \<Rightarrow> string list \<times> (string \<rightharpoonup> future)" where
  "submit generate_raw_urim delay self st uri =
     (let raw_urim = generate_raw_urim uri;
          working_urim_list = fst st @ [uri];
          futures = (snd st)(uri \<mapsto> futuressession_get delay self uri);
          futures = futures(raw_urim \<mapsto> futuressession_get delay self raw_urim)
      in (working_urim_list, futures))"

text \<open>
  The second loop. \<^verbatim>\<open>uri_generator\<close> yields \<^verbatim>\<open>random.choice\<close> of the working list
  for as long as the list is not empty; the list of draws gives the random numbers, one
  for each choice, and a draw \<open>d\<close> picks the element at \<open>d mod length\<close>. The loop may run
  forever: the result is \<open>None\<close> when the draws are used up before the list is empty,
  and \<open>Some\<close> of the outcome (a \<^verbatim>\<open>KeyError\<close> of \<^verbatim>\<open>futures[uri]\<close>, or the normal end)
  with the model otherwise.
\<close>

fun poll_loop ::
  "model \<Rightarrow> string list \<Rightarrow> (string \<rightharpoonup> future) \<Rightarrow> nat \<Rightarrow> nat list \<Rightarrow>
   ((exn + unit) \<times> model) option" where
  "poll_loop self [] futures now draws = Some (Inr (), self)"
| "poll_loop self (w # ws) futures now [] = None"
| "poll_loop self (w # ws) futures now (d # draws) =
     (let working_urim_list = w # ws;
          uri = working_urim_list ! (d mod length working_urim_list)
      in case futures uri of
           None \<Rightarrow> Some (Inl (KeyError uri), self)
         | Some f \<Rightarrow>
             if future_done f now then
               (case outcome f of
                  Inr r \<Rightarrow>
                    (let self' =
                       (if map_of (headers r) ''memento-datetime'' = None
                        then addMementoError self uri
                               (Str (''URI-M '' @ uri @ '' does not produce a memento''))
                        else self)
                     in poll_loop self' (remove1 uri working_urim_list)
                          (futures(uri := None)) (Suc now) draws)
                | Inl e \<Rightarrow>
                    poll_loop (addMementoError self uri (Bytes (repr e)))
                      working_urim_list futures (Suc now) draws)
             else poll_loop self working_urim_list futures (Suc now) draws)"

definition addManyMementos ::
  "(string \<Rightarrow> string) \<Rightarrow> (string \<Rightarrow> nat option) \<Rightarrow> model \<Rightarrow> string list \<Rightarrow> nat list \<Rightarrow>
   ((exn + unit) \<times> model) option" where
  "addManyMementos generate_raw_urim delay self urims draws =
     (let st = foldl (submit generate_raw_urim delay self) ([], Map.empty) urims
      in poll_loop self (fst st) (snd st) 0 draws)"

subsection \<open>Derived values\<close>

definition getMementoContentWithoutBoilerplate ::
  "(string \<Rightarrow> string) \<Rightarrow> (string \<Rightarrow> string + string list) \<Rightarrow> model \<Rightarrow> string \<Rightarrow>
   (exn + string) \<times> model" where
  "getMementoContentWithoutBoilerplate generate_raw_urim justext self urim =
     (if getMementoErrorInformation self urim \<noteq> None then
        (Inl (CollectionModelMementoErrorException
                (''Errors were recorded for URI-M '' @ urim)), self)
      else
        case find (\<lambda>d. bp_urim d = urim) (bpfree_collection self) of
          Some bprecord \<Rightarrow> (Inr (bp_boilerplate_free_content bprecord), self)
        | None \<Rightarrow>
            (case getMementoContent generate_raw_urim self urim of
               Inl e \<Rightarrow> (Inl e, self)
             | Inr html \<Rightarrow>
                 (let self = self\<lparr> justext_calls := Suc (justext_calls self) \<rparr> in
                  case justext html of
                    Inl e \<Rightarrow> (Inl (CollectionModelBoilerPlateRemovalFailureException e), self)
                  | Inr paragraphs \<Rightarrow>
                      (let content_without_boilerplate =
                             foldl (\<lambda>acc paragraph. acc @ paragraph @ [CHR 0x0A]) [] paragraphs
                       in (Inr content_without_boilerplate,
                           self\<lparr> bpfree_collection := bpfree_collection self @
                             [\<lparr> bp_urim = urim,
                                bp_boilerplate_free_content = content_without_boilerplate,
                                bp_algorithm = ''justext'' \<rparr>] \<rparr>)))))"

text \<open>Python's \<^verbatim>\<open>str\<close> of a non-negative integer.\<close>

fun str :: "nat \<Rightarrow> string" where
  "str n = (if n < 10 then [char_of (48 + n)]
            else str (n div 10) @ [char_of (48 + n mod 10)])"

declare str.simps [simp del]

text \<open>
  \<^verbatim>\<open>update({"urim": urim}, {"$set": {"raw simhash": v}})\<close>: the first document of the
  URI-M gets the field.
\<close>

fun update_set :: "derived_document list \<Rightarrow> string \<Rightarrow> string \<Rightarrow> derived_document list" where
  "update_set [] urim v = []"
| "update_set (d # ds) urim v =
     (if dv_urim d = urim then d\<lparr> dv_raw_simhash := Some v \<rparr> # ds
      else d # update_set ds urim v)"

definition getRawSimhash ::
  "(string \<Rightarrow> string) \<Rightarrow> (string \<Rightarrow> nat) \<Rightarrow> model \<Rightarrow> string \<Rightarrow> (exn + string) \<times> model" where
  "getRawSimhash generate_raw_urim Simhash self urim =
     (if getMementoErrorInformation self urim \<noteq> None then
        (Inl (CollectionModelMementoErrorException
                (''Errors were recorded for URI-M '' @ urim)), self)
      else
        case find (\<lambda>d. dv_urim d = urim) (derived_collection self) of
          Some derived_record \<Rightarrow>
            (case dv_raw_simhash derived_record of
               Some raw_simhash \<Rightarrow> (Inr raw_simhash, self)
             | None \<Rightarrow>
                 (case getMementoContent generate_raw_urim self urim of
                    Inl e \<Rightarrow> (Inl e, self)
                  | Inr content \<Rightarrow>
                      (let raw_simhash = Simhash content
                       in (Inr (str raw_simhash),
                           self\<lparr> Simhash_calls := Suc (Simhash_calls self),
                                 derived_collection :=
                                   update_set (derived_collection self) urim
                                     (str raw_simhash) \<rparr>))))
        | None \<Rightarrow>
            (case getMementoContent generate_raw_urim self urim of
               Inl e \<Rightarrow> (Inl e, self)
             | Inr content \<Rightarrow>
                 (let raw_simhash = Simhash content
                  in (Inr (str raw_simhash),
                      self\<lparr> Simhash_calls := Suc (Simhash_calls self),
                            derived_collection := derived_collection self @
                              [\<lparr> dv_urim = urim,
                                 dv_raw_simhash = Some (str raw_simhash) \<rparr>] \<rparr>))))"

subsection \<open>The representative of a group of duplicates\<close>

text \<open>
  A \<^verbatim>\<open>datetime\<close> without time zone: year, month, day, hour, minute, second. Python
  compares two of them in time order, which is the lexicographic order of the six fields;
  a tuple \<^verbatim>\<open>(mdt, urim)\<close> is compared lexicographically, and two strings by their
  characters.
\<close>

type_synonym datetime = "nat \<times> nat \<times> nat \<times> nat \<times> nat \<times> nat"

text \<open>
  The loop over the cursor. \<open>strptime\<close> is \<^verbatim>\<open>datetime.strptime\<close> with the format of
  the source; \<open>None\<close> is its \<^verbatim>\<open>ValueError\<close>.
\<close>

fun matching_loop ::
  "(string \<Rightarrow> datetime option) \<Rightarrow> model \<Rightarrow> derived_document list \<Rightarrow>
   (datetime \<times> string) list \<Rightarrow> exn + (datetime \<times> string) list" where
  "matching_loop strptime self [] matching_urims = Inr matching_urims"
| "matching_loop strptime self (rec # cursor) matching_urims =
     (let urim = dv_urim rec in
      case getMementoHeaders self urim of
        Inl e \<Rightarrow> Inl e
      | Inr hs \<Rightarrow>
          (case map_of hs ''memento-datetime'' of
             None \<Rightarrow> Inl (KeyError ''memento-datetime'')
           | Some v \<Rightarrow>
               (case strptime v of
                  None \<Rightarrow> Inl (ValueError v)
                | Some mdt \<Rightarrow>
                    matching_loop strptime self cursor (matching_urims @ [(mdt, dv_urim rec)]))))"

text \<open>
  \<^verbatim>\<open>sorted(matching_urims, reverse=True)[0]\<close>: equal tuples are the same value, so
  the descending sort is the reverse of the ascending one.
\<close>

definition getFirstURIMByRawSimhash ::
  "(string \<Rightarrow> datetime option) \<Rightarrow> model \<Rightarrow> string \<Rightarrow> exn + (datetime \<times> string)" where
  "getFirstURIMByRawSimhash strptime self raw_simhash =
     (let matching_cursor =
            filter (\<lambda>d. dv_raw_simhash d = Some raw_simhash) (derived_collection self)
      in case matching_loop strptime self matching_cursor [] of
           Inl e \<Rightarrow> Inl e
         | Inr matching_urims \<Rightarrow>
             (case rev (sort matching_urims) of
                [] \<Rightarrow> Inl IndexError
              | first # others \<Rightarrow> Inr first))"

subsection \<open>Off-topic classification\<close>

text \<open>
  Modelled from the spec: the measure model of the otmt package
  (\<^verbatim>\<open>otmt.MeasureModel\<close>), which is not in the repository. It holds the Measure
  Results \<open>{measure_name, uri_m, score}\<close>, the on/off verdict of every measure for every
  URI-M, the Overall Verdict of every URI-M, and the URI-Ms of every TimeMap in scan
  order. A status is the string \<^verbatim>\<open>"on-topic"\<close> or \<^verbatim>\<open>"off-topic"\<close>, as the source
  compares it.
\<close>

record measure_result =
  measure_name :: string
  uri_m :: string
  score :: real

record MeasureModel =
  timemaps :: "(string \<times> string list) list"
  measure_results :: "measure_result list"
  measure_verdicts :: "(string \<times> string \<times> string) list"
  overall_verdicts :: "(string \<times> string) list"

text \<open>Modelled from the spec: \<^verbatim>\<open>otmt.MeasureModel()\<close>, the empty measure model.\<close>

definition MeasureModel_new :: MeasureModel where
  "MeasureModel_new = \<lparr> timemaps = [], measure_results = [], measure_verdicts = [],
                         overall_verdicts = [] \<rparr>"

text \<open>
  Modelled from the spec: the comparison direction registered for a measure, "e.g.,
  greater-than-or-equal vs less-than", \<open>enum{GE, LE, ...}\<close>. A score is on-topic when it
  stands in that relation to the threshold: with \<open>m1: threshold 0.5 GE\<close> the score 0.6
  passes and 0.4 fails, with \<open>m2: threshold 0.3 LE\<close> the score 0.2 passes and 0.5 fails.
\<close>

datatype comparison_direction = GE | GT | LE | LT

fun passes :: "comparison_direction \<Rightarrow> real \<Rightarrow> real \<Rightarrow> bool" where
  "passes GE s threshold = (s \<ge> threshold)"
| "passes GT s threshold = (s > threshold)"
| "passes LE s threshold = (s \<le> threshold)"
| "passes LT s threshold = (s < threshold)"

text \<open>
  Modelled from the spec: \<^verbatim>\<open>calculate_offtopic_by_measure\<close> of the absent otmt
  package, step 2 of the classification: "Threshold each measure's scores using that
  measure's registered comparison direction against the caller-supplied threshold,
  producing a per-measure per-URI-M on/off verdict."
\<close>

definition calculate_offtopic_by_measure ::
  "MeasureModel \<Rightarrow> string \<Rightarrow> string \<Rightarrow> real \<Rightarrow> comparison_direction \<Rightarrow> MeasureModel" where
  "calculate_offtopic_by_measure mm measuretype measure' threshold direction =
     mm\<lparr> measure_verdicts :=
           filter (\<lambda>v. fst v \<noteq> measure') (measure_verdicts mm) @
           map (\<lambda>r. (measure', uri_m r,
                      if passes direction (score r) threshold then ''on-topic''
                      else ''off-topic''))
               (filter (\<lambda>r. measure_name r = measure') (measure_results mm)) \<rparr>"

text \<open>
  Modelled from the spec: \<^verbatim>\<open>calculate_overall_offtopic_status\<close> of the absent otmt
  package, step 3: "a URI-M's overall verdict is on-topic only if every measure's verdict
  for that URI-M is on-topic (logical AND across measures)". A URI-M without any verdict
  gets no overall verdict.
\<close>

definition calculate_overall_offtopic_status :: "MeasureModel \<Rightarrow> MeasureModel" where
  "calculate_overall_offtopic_status mm =
     mm\<lparr> overall_verdicts :=
           map (\<lambda>u. (u, if list_all (\<lambda>v. snd (snd v) = ''on-topic'')
                               (filter (\<lambda>v. fst (snd v) = u) (measure_verdicts mm))
                         then ''on-topic'' else ''off-topic''))
               (remdups (map (\<lambda>v. fst (snd v)) (measure_verdicts mm))) \<rparr>"

text \<open>
  Modelled from the spec: the three readers of the absent measure model that
  \<^verbatim>\<open>get_list_of_ontopic\<close> calls; a URI-M with "a missing overall status" is a
  "\<^verbatim>\<open>KeyError\<close>-class condition".
\<close>

definition get_TimeMap_URIs :: "MeasureModel \<Rightarrow> string list" where
  "get_TimeMap_URIs mm = map fst (timemaps mm)"

definition get_Memento_URIs_in_TimeMap :: "MeasureModel \<Rightarrow> string \<Rightarrow> string list" where
  "get_Memento_URIs_in_TimeMap mm urit =
     (case map_of (timemaps mm) urit of None \<Rightarrow> [] | Some urims \<Rightarrow> urims)"

definition get_overall_off_topic_status :: "MeasureModel \<Rightarrow> string \<Rightarrow> exn + string" where
  "get_overall_off_topic_status mm urim =
     (case map_of (overall_verdicts mm) urim of
        None \<Rightarrow> Inl (KeyError urim)
      | Some status \<Rightarrow> Inr status)"

text \<open>
  The body of the inner loop of \<^verbatim>\<open>get_list_of_ontopic\<close>: the \<^verbatim>\<open>KeyError\<close> is
  logged and the URI-M is left out.
\<close>

definition ontopic_step :: "MeasureModel \<Rightarrow> string list \<Rightarrow> string \<Rightarrow> string list" where
  "ontopic_step measuremodel ontopic_mementos urim =
     (case get_overall_off_topic_status measuremodel urim of
        Inr status \<Rightarrow>
          (if status = ''on-topic'' then ontopic_mementos @ [urim] else ontopic_mementos)
      | Inl e \<Rightarrow> ontopic_mementos)"

definition get_list_of_ontopic :: "MeasureModel \<Rightarrow> string list" where
  "get_list_of_ontopic measuremodel =
     foldl (\<lambda>ontopic_mementos urit.
              foldl (ontopic_step measuremodel) ontopic_mementos
                (get_Memento_URIs_in_TimeMap measuremodel urit))
       [] (get_TimeMap_URIs measuremodel)"

text \<open>
  An entry of \<^verbatim>\<open>otmt.supported_timemap_measures\<close>, the registry of the measures. The
  scoring function takes the collection model, the running measure model and, for the
  two topic-model measures, the number of topics.
\<close>

record measure_entry =
  measure_function :: "model \<Rightarrow> MeasureModel \<Rightarrow> nat option \<Rightarrow> MeasureModel"
  comparison_direction_of :: comparison_direction
  default_number_of_topics :: "nat option"

text \<open>
  What follows the call of the scoring function in the body of the loop of
  \<^verbatim>\<open>detect_off_topic\<close>, down to its \<^verbatim>\<open>return\<close>.
\<close>

definition threshold_and_return ::
  "MeasureModel \<Rightarrow> string \<Rightarrow> real \<Rightarrow> comparison_direction \<Rightarrow> string list" where
  "threshold_and_return mm measure' threshold direction =
     (let mm = calculate_offtopic_by_measure mm ''timemap measures'' measure' threshold direction;
          mm = calculate_overall_offtopic_status mm;
          ontopic_mementos = get_list_of_ontopic mm
      in ontopic_mementos)"

text \<open>
  The loop \<^verbatim>\<open>for measure in timemap_measures\<close>, over the items of the dictionary in
  insertion order. The \<^verbatim>\<open>return ontopic_mementos\<close> of the source is indented into the
  body of the loop, so the first iteration returns and the rest of the dictionary is not
  read; with no measure at all the function ends without a \<^verbatim>\<open>return\<close>, which is
  \<^verbatim>\<open>None\<close>.
\<close>

fun detect_off_topic_loop ::
  "(string \<rightharpoonup> measure_entry) \<Rightarrow> model \<Rightarrow> MeasureModel \<Rightarrow> nat option \<Rightarrow>
   (string \<times> real) list \<Rightarrow> exn + string list option" where
  "detect_off_topic_loop supported_timemap_measures collection_model mm num_topics [] =
     Inr None"
| "detect_off_topic_loop supported_timemap_measures collection_model mm num_topics
     ((measure', threshold) # rest) =
     (case supported_timemap_measures measure' of
        None \<Rightarrow> Inl (KeyError measure')
      | Some entry \<Rightarrow>
          if measure' = ''gensim_lda'' \<or> measure' = ''gensim_lsi'' then
            (case (case num_topics of
                     None \<Rightarrow> default_number_of_topics entry
                   | Some n \<Rightarrow> Some n) of
               None \<Rightarrow> Inl (KeyError ''default number of topics'')
             | Some n \<Rightarrow>
                 Inr (Some (threshold_and_return
                              (measure_function entry collection_model mm (Some n))
                              measure' threshold (comparison_direction_of entry))))
          else
            Inr (Some (threshold_and_return
                         (measure_function entry collection_model mm None)
                         measure' threshold (comparison_direction_of entry))))"

definition detect_off_topic ::
  "(string \<rightharpoonup> measure_entry) \<Rightarrow> model \<Rightarrow> (string \<times> real) list \<Rightarrow> nat option \<Rightarrow>
   exn + string list option" where
  "detect_off_topic supported_timemap_measures collection_model timemap_measures num_topics =
     detect_off_topic_loop supported_timemap_measures collection_model MeasureModel_new
       num_topics timemap_measures"

text \<open>
  The classification as the specification words it, for comparison with
  \<^const>\<open>detect_off_topic\<close>: every measure of the mapping is scored and thresholded
  (steps 1 and 2), then the verdicts are aggregated (step 3) and the on-topic URI-Ms are
  emitted (step 4).
\<close>

fun classify_spec_loop ::
  "(string \<rightharpoonup> measure_entry) \<Rightarrow> model \<Rightarrow> MeasureModel \<Rightarrow> nat option \<Rightarrow>
   (string \<times> real) list \<Rightarrow> exn + MeasureModel" where
  "classify_spec_loop registry collection_model mm topic_count [] = Inr mm"
| "classify_spec_loop registry collection_model mm topic_count ((measure', threshold) # rest) =
     (case registry measure' of
        None \<Rightarrow> Inl (KeyError measure')
      | Some entry \<Rightarrow>
          (let n = (if measure' = ''gensim_lda'' \<or> measure' = ''gensim_lsi''
                    then (case topic_count of
                            None \<Rightarrow> default_number_of_topics entry
                          | Some n \<Rightarrow> Some n)
                    else None);
               mm = measure_function entry collection_model mm n;
               mm = calculate_offtopic_by_measure mm ''timemap measures'' measure' threshold
                      (comparison_direction_of entry)
           in classify_spec_loop registry collection_model mm topic_count rest))"

definition classify_spec ::
  "(string \<rightharpoonup> measure_entry) \<Rightarrow> model \<Rightarrow> (string \<times> real) list \<Rightarrow> nat option \<Rightarrow>
   exn + string list" where
  "classify_spec registry collection_model measures_mapping topic_count =
     (case classify_spec_loop registry collection_model MeasureModel_new topic_count
             measures_mapping of
        Inl e \<Rightarrow> Inl e
      | Inr mm \<Rightarrow> Inr (get_list_of_ontopic (calculate_overall_offtopic_status mm)))"

subsection \<open>Sequences of calls\<close>

text \<open>
  The external functions the methods of the model call, gathered so that a sequence of
  calls can be run against one choice of them.
\<close>

record collaborators =
  raw_urim_of :: "string \<Rightarrow> string"
  delay_of :: "string \<Rightarrow> nat option"
  justext_of :: "string \<Rightarrow> string + string list"
  Simhash_of :: "string \<Rightarrow> nat"

text \<open>
  The calls that can change the model; \<^verbatim>\<open>addManyMementos\<close> comes with the random
  draws of its loop.
\<close>

datatype call =
    AddTimeMap string
  | AddMemento string
  | AddManyMementos "string list" "nat list"
  | AddMementoError string error_information
  | GetMementoContentWithoutBoilerplate string
  | GetRawSimhash string

text \<open>
  The model after a call, whether the call returns or raises; \<open>None\<close> when
  \<^verbatim>\<open>addManyMementos\<close> has not ended within its draws.
\<close>

fun exec :: "collaborators \<Rightarrow> model \<Rightarrow> call \<Rightarrow> model option" where
  "exec c self (AddTimeMap urit) = Some (snd (addTimeMap self urit))"
| "exec c self (AddMemento urim) = Some (snd (addMemento (raw_urim_of c) self urim))"
| "exec c self (AddManyMementos urims draws) =
     map_option snd (addManyMementos (raw_urim_of c) (delay_of c) self urims draws)"
| "exec c self (AddMementoError urim errorinformation) =
     Some (addMementoError self urim errorinformation)"
| "exec c self (GetMementoContentWithoutBoilerplate urim) =
     Some (snd (getMementoContentWithoutBoilerplate (raw_urim_of c) (justext_of c) self urim))"
| "exec c self (GetRawSimhash urim) =
     Some (snd (getRawSimhash (raw_urim_of c) (Simhash_of c) self urim))"

fun run :: "collaborators \<Rightarrow> model \<Rightarrow> call list \<Rightarrow> model option" where
  "run c self [] = Some self"
| "run c self (x # xs) =
     (case exec c self x of None \<Rightarrow> None | Some self' \<Rightarrow> run c self' xs)"

text \<open>A call involves a URI-M when it registers it or records an error for it.\<close>

fun involves :: "string \<Rightarrow> call \<Rightarrow> bool" where
  "involves u (AddMemento urim) = (urim = u)"
| "involves u (AddManyMementos urims draws) = (u \<in> set urims)"
| "involves u (AddMementoError urim errorinformation) = (urim = u)"
| "involves u (AddTimeMap urit) = False"
| "involves u (GetMementoContentWithoutBoilerplate urim) = False"
| "involves u (GetRawSimhash urim) = False"

text \<open>What the two stores of derived values hold for a URI-M.\<close>

definition stored_boilerplate_free :: "model \<Rightarrow> string \<Rightarrow> string option" where
  "stored_boilerplate_free self urim =
     map_option bp_boilerplate_free_content
       (find (\<lambda>d. bp_urim d = urim) (bpfree_collection self))"

definition stored_raw_simhash :: "model \<Rightarrow> string \<Rightarrow> string option" where
  "stored_raw_simhash self urim =
     (case find (\<lambda>d. dv_urim d = urim) (derived_collection self) of
        None \<Rightarrow> None
      | Some d \<Rightarrow> dv_raw_simhash d)"

subsection \<open>A small archive for the examples\<close>

text \<open>
  Stand-ins for the external functions and a session with a few captures: \<open>uriA\<close> and
  \<open>uriB\<close> are mementos with a capture time, \<open>gone\<close> answers 404 without memento headers,
  \<open>timeout\<close> raises a request exception that is not a connection error, every other URI
  raises a connection error. The raw counterpart of a URI-M is written \<open>raw:\<close> before it.
\<close>

definition example_generate_raw_urim :: "string \<Rightarrow> string" where
  "example_generate_raw_urim urim = ''raw:'' @ urim"

definition example_session :: "string \<Rightarrow> request_exception + response" where
  "example_session uri =
     (if uri = ''uriA'' \<or> uri = ''raw:uriA'' then
        Inr \<lparr> status_code = 200,
              headers = [(''memento-datetime'', ''Wed, 01 Jan 2020 00:00:00 GMT'')],
              text_of = ''<p>same page</p>'' \<rparr>
      else if uri = ''uriB'' \<or> uri = ''raw:uriB'' then
        Inr \<lparr> status_code = 200,
              headers = [(''memento-datetime'', ''Tue, 01 Jun 2021 00:00:00 GMT'')],
              text_of = ''<p>same page</p>'' \<rparr>
      else if uri = ''gone'' \<or> uri = ''raw:gone'' then
        Inr \<lparr> status_code = 404, headers = [], text_of = ''Not Found'' \<rparr>
      else if uri = ''urit1'' then
        Inr \<lparr> status_code = 200, headers = [], text_of = ''uriA,uriB'' \<rparr>
      else if uri = ''timeout'' then Inl (RequestException ''ReadTimeout()'')
      else Inl (ConnectionError ''ConnectionError()''))"

definition example_strptime :: "string \<Rightarrow> datetime option" where
  "example_strptime v =
     (if v = ''Wed, 01 Jan 2020 00:00:00 GMT'' then Some (2020, 1, 1, 0, 0, 0)
      else if v = ''Tue, 01 Jun 2021 00:00:00 GMT'' then Some (2021, 6, 1, 0, 0, 0)
      else None)"

definition example_justext :: "string \<Rightarrow> string + string list" where
  "example_justext html =
     (if html = ''<p>same page</p>'' then Inr [''same page''] else Inl ''ParserError()'')"

definition example_Simhash :: "string \<Rightarrow> nat" where
  "example_Simhash content = length content"

definition example_convert :: "string \<Rightarrow> string + string list" where
  "example_convert body = (if body = ''uriA,uriB'' then Inr [''uriA'', ''uriB'']
                           else Inl ''MalformedLinkFormatTimeMap()'')"

definition example_collaborators :: collaborators where
  "example_collaborators =
     \<lparr> raw_urim_of = example_generate_raw_urim, delay_of = (\<lambda>uri. Some 0),
       justext_of = example_justext, Simhash_of = example_Simhash \<rparr>"

text \<open>No Error Record of the URI-M is in the Error Store.\<close>

definition no_error_document :: "model \<Rightarrow> string \<Rightarrow> bool" where
  "no_error_document self u = (\<forall>d\<in>set (error_collection self). err_urim d \<noteq> u)"

text \<open>The model after \<^verbatim>\<open>addMemento("uriA")\<close> and an error recorded for \<open>gone\<close>.\<close>

definition example_after_two_calls :: model where
  "example_after_two_calls =
     \<lparr> session = example_session,
       error_collection = [\<lparr> err_urim = ''gone'', err_error_information = Str ''no memento'' \<rparr>],
       bpfree_collection = [], derived_collection = [],
       urimlist = [''uriA''], uritlist = [], justext_calls = 0, Simhash_calls = 0 \<rparr>"

text \<open>
  The capture time of a URI-M as the loop of \<^verbatim>\<open>getFirstURIMByRawSimhash\<close> resolves
  it from the stored headers; \<open>None\<close> where the loop raises instead.
\<close>

definition capture_time :: "(string \<Rightarrow> datetime option) \<Rightarrow> model \<Rightarrow> string \<Rightarrow> datetime option" where
  "capture_time strptime self urim =
     (case getMementoHeaders self urim of
        Inl e \<Rightarrow> None
      | Inr hs \<Rightarrow>
          (case map_of hs ''memento-datetime'' of
             None \<Rightarrow> None
           | Some v \<Rightarrow> strptime v))"

text \<open>
  Two models for the examples: both \<open>uriA\<close> and \<open>uriB\<close> fingerprinted (they have
  the same content), and \<open>gone\<close> registered with \<^verbatim>\<open>addMemento\<close> and then
  fingerprinted.
\<close>

definition example_duplicates :: model where
  "example_duplicates =
     snd (getRawSimhash example_generate_raw_urim example_Simhash
       (snd (getRawSimhash example_generate_raw_urim example_Simhash
          (init example_session) ''uriA'')) ''uriB'')"

definition example_gone_hashed :: model where
  "example_gone_hashed =
     snd (getRawSimhash example_generate_raw_urim example_Simhash
       (snd (addMemento example_generate_raw_urim (init example_session) ''gone'')) ''gone'')"

text \<open>The model after the boilerplate of \<open>uriA\<close> has been removed once.\<close>

definition example_extracted :: model where
  "example_extracted =
     \<lparr> session = example_session, error_collection = [],
       bpfree_collection =
         [\<lparr> bp_urim = ''uriA'', bp_boilerplate_free_content = ''same page'' @ [CHR 0x0A],
            bp_algorithm = ''justext'' \<rparr>],
       derived_collection = [], urimlist = [], uritlist = [],
       justext_calls = 1, Simhash_calls = 0 \<rparr>"

text \<open>
  Two measures for the examples, with the scores of the specification's example: \<open>m1\<close>
  is registered with the direction GE and \<open>m2\<close> with LE; \<open>uriA\<close> scores (0.6, 0.2),
  \<open>uriB\<close> (0.4, 0.2) and \<open>uriC\<close> (0.6, 0.5).
\<close>

definition example_measure_m1 :: "model \<Rightarrow> MeasureModel \<Rightarrow> nat option \<Rightarrow> MeasureModel" where
  "example_measure_m1 collection_model mm num_topics =
     mm\<lparr> timemaps := [(''urit1'', [''uriA'', ''uriB'', ''uriC''])],
         measure_results := measure_results mm @
           [\<lparr> measure_name = ''m1'', uri_m = ''uriA'', score = 0.6 \<rparr>,
            \<lparr> measure_name = ''m1'', uri_m = ''uriB'', score = 0.4 \<rparr>,
            \<lparr> measure_name = ''m1'', uri_m = ''uriC'', score = 0.6 \<rparr>] \<rparr>"

definition example_measure_m2 :: "model \<Rightarrow> MeasureModel \<Rightarrow> nat option \<Rightarrow> MeasureModel" where
  "example_measure_m2 collection_model mm num_topics =
     mm\<lparr> timemaps := [(''urit1'', [''uriA'', ''uriB'', ''uriC''])],
         measure_results := measure_results mm @
           [\<lparr> measure_name = ''m2'', uri_m = ''uriA'', score = 0.2 \<rparr>,
            \<lparr> measure_name = ''m2'', uri_m = ''uriB'', score = 0.2 \<rparr>,
            \<lparr> measure_name = ''m2'', uri_m = ''uriC'', score = 0.5 \<rparr>] \<rparr>"

definition example_supported_timemap_measures :: "string \<rightharpoonup> measure_entry" where
  "example_supported_timemap_measures name =
     (if name = ''m1'' then
        Some \<lparr> measure_function = example_measure_m1, comparison_direction_of = GE,
               default_number_of_topics = None \<rparr>
      else if name = ''m2'' then
        Some \<lparr> measure_function = example_measure_m2, comparison_direction_of = LE,
               default_number_of_topics = None \<rparr>
      else None)"

text \<open>
  The header check of \<^verbatim>\<open>addManyMementos\<close> fails for a URI-M: its fetch returns a
  response without the capture-time marker \<^verbatim>\<open>memento-datetime\<close>.
\<close>

definition fails_validation :: "model \<Rightarrow> string \<Rightarrow> bool" where
  "fails_validation self uri =
     (case session self uri of
        Inl e \<Rightarrow> False
      | Inr r \<Rightarrow> map_of (headers r) ''memento-datetime'' = None)"

text \<open>
  A session for ten URI-Ms: \<open>x1\<close>, \<open>x2\<close> and \<open>x3\<close> answer without a capture-time marker,
  every other URI answers with one.
\<close>

definition example_batch_session :: "string \<Rightarrow> request_exception + response" where
  "example_batch_session uri =
     (if uri = ''x1'' \<or> uri = ''x2'' \<or> uri = ''x3'' then
        Inr \<lparr> status_code = 200, headers = [], text_of = ''not a memento'' \<rparr>
      else
        Inr \<lparr> status_code = 200,
              headers = [(''memento-datetime'', ''Wed, 01 Jan 2020 00:00:00 GMT'')],
              text_of = ''a memento'' \<rparr>)"

definition example_batch :: "string list" where
  "example_batch = [''m1'', ''x1'', ''m2'', ''m3'', ''x2'', ''m4'', ''m5'', ''m6'', ''x3'', ''m7'']"

section \<open>Properties\<close>

subsection \<open>What the batch loop changes\<close>

text \<open>
  The polling loop touches nothing but the Error Store, and every document it adds is
  for a URI-M of its working list.
\<close>

lemma fst_foldl_submit:
  "fst (foldl (submit g dl self) st urims) = fst st @ urims"
  by (induction urims arbitrary: st) (simp_all add: submit_def Let_def)

lemma poll_loop_only_adds_errors:
  "poll_loop self ws futures now draws = Some (res, self') \<Longrightarrow>
   \<exists>errs. self' = self\<lparr> error_collection := error_collection self @ errs \<rparr> \<and>
          (\<forall>d\<in>set errs. err_urim d \<in> set ws)"
proof (induction self ws futures now draws rule: poll_loop.induct)
  case (1 self futures now draws)
  then show ?case by simp
next
  case (2 self w ws futures now)
  then show ?case by simp
next
  case (3 self w ws futures now d draws)
  let ?wl = "w # ws"
  let ?uri = "?wl ! (d mod length ?wl)"
  have mem: "?uri \<in> set ?wl"
    by (rule nth_mem) simp
  show ?case
  proof (cases "futures ?uri")
    case None
    with 3(4) have "self' = self" by (simp add: Let_def)
    then have "self' = self\<lparr> error_collection := error_collection self @ [] \<rparr>" by simp
    then show ?thesis by (metis empty_iff list.set(1))
  next
    case (Some f)
    show ?thesis
    proof (cases "future_done f now")
      case False
      with Some 3(4) have "poll_loop self ?wl futures (Suc now) draws = Some (res, self')"
        by (simp add: Let_def)
      with 3(3)[OF refl refl Some False] show ?thesis by simp
    next
      case True
      show ?thesis
      proof (cases "outcome f")
        case (Inl e)
        with Some True 3(4)
        have run: "poll_loop (addMementoError self ?uri (Bytes (repr e))) ?wl futures (Suc now) draws
                 = Some (res, self')"
          by (simp add: Let_def)
        from 3(1)[OF refl refl Some True Inl run]
        obtain errs where
          e: "self' = (addMementoError self ?uri (Bytes (repr e)))
                 \<lparr> error_collection := error_collection (addMementoError self ?uri (Bytes (repr e))) @ errs \<rparr>"
          and s: "\<forall>d\<in>set errs. err_urim d \<in> set ?wl"
          by blast
        let ?new = "\<lparr> err_urim = ?uri, err_error_information = Bytes (repr e) \<rparr>"
        have "self' = self\<lparr> error_collection := error_collection self @ (?new # errs) \<rparr>"
          using e by (simp add: addMementoError_def)
        moreover have "\<forall>d\<in>set (?new # errs). err_urim d \<in> set ?wl"
          using s mem by simp
        ultimately show ?thesis by blast
      next
        case (Inr r)
        let ?self1 = "if map_of (headers r) ''memento-datetime'' = None
                        then addMementoError self ?uri
                               (Str (''URI-M '' @ ?uri @ '' does not produce a memento''))
                        else self"
        from Some True Inr 3(4)
        have run: "poll_loop ?self1 (remove1 ?uri ?wl) (futures(?uri := None)) (Suc now) draws
                 = Some (res, self')"
          by (simp add: Let_def)
        from 3(2)[OF refl refl Some True Inr refl run]
        obtain errs where
          e: "self' = ?self1\<lparr> error_collection := error_collection ?self1 @ errs \<rparr>"
          and s: "\<forall>d\<in>set errs. err_urim d \<in> set (remove1 ?uri ?wl)"
          by blast
        have s': "\<forall>d\<in>set errs. err_urim d \<in> set ?wl"
          using s set_remove1_subset by fastforce
        show ?thesis
        proof (cases "map_of (headers r) ''memento-datetime'' = None")
          case False
          with e s' show ?thesis by auto
        next
          case T: True
          let ?new = "\<lparr> err_urim = ?uri, err_error_information =
                 Str (''URI-M '' @ ?uri @ '' does not produce a memento'') \<rparr>"
          have "self' = self\<lparr> error_collection := error_collection self @ (?new # errs) \<rparr>"
            using e T by (simp add: addMementoError_def)
          moreover have "\<forall>d\<in>set (?new # errs). err_urim d \<in> set ?wl"
            using s' mem by simp
          ultimately show ?thesis by blast
        qed
      qed
    qed
  qed
qed

lemma addManyMementos_only_adds_errors:
  assumes "addManyMementos g dl self urims draws = Some (res, self')"
  shows "\<exists>errs. self' = self\<lparr> error_collection := error_collection self @ errs \<rparr> \<and>
          (\<forall>d\<in>set errs. err_urim d \<in> set urims)"
  using poll_loop_only_adds_errors[of self "fst (foldl (submit g dl self) ([], Map.empty) urims)"]
    assms
  by (simp add: addManyMementos_def Let_def fst_foldl_submit)


subsection \<open>Which calls add Error Records\<close>

lemma addMemento_except_errors:
  "\<exists>errs. error_collection (snd (addMemento_except self urim e)) = error_collection self @ errs \<and>
          (\<forall>d\<in>set errs. err_urim d = urim)"
  by (cases e) (simp_all add: addMementoError_def)

lemma addMemento_errors:
  "\<exists>errs. error_collection (snd (addMemento g self urim)) = error_collection self @ errs \<and>
          (\<forall>d\<in>set errs. err_urim d = urim)"
  using addMemento_except_errors[of self urim]
  by (auto simp: addMemento_def Let_def split: sum.splits)

lemma addTimeMap_errors:
  "error_collection (snd (addTimeMap self urit)) = error_collection self"
  by (simp add: addTimeMap_def split: sum.splits)

lemma getMementoContentWithoutBoilerplate_errors:
  "error_collection (snd (getMementoContentWithoutBoilerplate g j self urim)) = error_collection self"
  by (simp add: getMementoContentWithoutBoilerplate_def Let_def split: sum.splits option.splits)

lemma getRawSimhash_errors:
  "error_collection (snd (getRawSimhash g h self urim)) = error_collection self"
  by (simp add: getRawSimhash_def Let_def split: sum.splits option.splits)

lemma getMementoErrorInformation_None_iff:
  "getMementoErrorInformation self u = None \<longleftrightarrow> no_error_document self u"
proof -
  have "getMementoErrorInformation self u = None \<longleftrightarrow>
        find (\<lambda>d. err_urim d = u) (error_collection self) = None"
    by (simp add: getMementoErrorInformation_def split: option.splits)
  then show ?thesis by (auto simp: no_error_document_def find_None_iff)
qed

lemma exec_keeps_no_error_document:
  assumes "exec c self x = Some self'" and "\<not> involves u x" and "no_error_document self u"
  shows "no_error_document self' u"
proof (cases x)
  case (AddTimeMap urit)
  with assms show ?thesis by (auto simp: no_error_document_def addTimeMap_errors)
next
  case (AddMemento urim)
  with assms addMemento_errors[of "raw_urim_of c" self urim] show ?thesis
    by (auto simp: no_error_document_def)
next
  case (AddManyMementos urims draws)
  with assms(1) obtain res where
    "addManyMementos (raw_urim_of c) (delay_of c) self urims draws = Some (res, self')"
    by auto
  from addManyMementos_only_adds_errors[OF this] assms(2,3) AddManyMementos
  show ?thesis by (auto simp: no_error_document_def)
next
  case (AddMementoError urim errorinformation)
  with assms show ?thesis by (auto simp: no_error_document_def addMementoError_def)
next
  case (GetMementoContentWithoutBoilerplate urim)
  with assms show ?thesis
    by (auto simp: no_error_document_def getMementoContentWithoutBoilerplate_errors)
next
  case (GetRawSimhash urim)
  with assms show ?thesis by (auto simp: no_error_document_def getRawSimhash_errors)
qed

lemma run_keeps_no_error_document:
  "run c self calls = Some self' \<Longrightarrow> \<forall>x\<in>set calls. \<not> involves u x \<Longrightarrow>
   no_error_document self u \<Longrightarrow> no_error_document self' u"
proof (induction calls arbitrary: self)
  case Nil
  then show ?case by simp
next
  case (Cons x xs)
  from Cons.prems(1) obtain mid where
    step: "exec c self x = Some mid" and rest: "run c mid xs = Some self'"
    by (auto split: option.splits)
  from exec_keeps_no_error_document[OF step] Cons.prems(2,3)
  have "no_error_document mid u" by simp
  with Cons.IH[OF rest] Cons.prems(2) show ?case by simp
qed

subsection \<open>Lookup of the error information\<close>

text \<open>
  Claim C9. On a model built over empty collections, after any sequence of calls that
  has ended and of which none registers the URI-M \<open>u\<close> or records an error for it
  (whether \<open>u\<close> is registered or not), \<^verbatim>\<open>getMementoErrorInformation(u)\<close> is
  \<^verbatim>\<open>None\<close>; and right after \<^verbatim>\<open>addMementoError(u, x)\<close>, on any model, it is not
  \<^verbatim>\<open>None\<close>. The error information \<open>x\<close> is a string or a bytes value, never
  \<^verbatim>\<open>None\<close>.
\<close>

theorem getMementoErrorInformation_before_and_after:
  "(run c (init s) calls = Some self \<and> (\<forall>x\<in>set calls. \<not> involves u x)
      \<longrightarrow> getMementoErrorInformation self u = None) \<and>
   getMementoErrorInformation (addMementoError self' u x) u \<noteq> None"
proof
  show "run c (init s) calls = Some self \<and> (\<forall>x\<in>set calls. \<not> involves u x)
      \<longrightarrow> getMementoErrorInformation self u = None"
  proof
    assume a: "run c (init s) calls = Some self \<and> (\<forall>x\<in>set calls. \<not> involves u x)"
    have "no_error_document (init s) u"
      by (simp add: no_error_document_def init_def)
    with a run_keeps_no_error_document[of c "init s" calls self u]
    show "getMementoErrorInformation self u = None"
      by (simp add: getMementoErrorInformation_None_iff)
  qed
next
  have "\<not> no_error_document (addMementoError self' u x) u"
    by (simp add: no_error_document_def addMementoError_def)
  then show "getMementoErrorInformation (addMementoError self' u x) u \<noteq> None"
    by (simp add: getMementoErrorInformation_None_iff)
qed


lemma example_run_two_calls:
  "run example_collaborators (init example_session)
     [AddMemento ''uriA'', AddMementoError ''gone'' (Str ''no memento'')]
   = Some example_after_two_calls"
  by (simp add: example_collaborators_def addMemento_def example_session_def
        example_generate_raw_urim_def init_def addMementoError_def example_after_two_calls_def)

theorem getMementoErrorInformation_before_and_after_witness:
  "run example_collaborators (init example_session)
     [AddMemento ''uriA'', AddMementoError ''gone'' (Str ''no memento'')]
     = Some example_after_two_calls \<and>
   \<not> involves ''uriB'' (AddMemento ''uriA'') \<and>
   \<not> involves ''uriB'' (AddMementoError ''gone'' (Str ''no memento'')) \<and>
   getMementoErrorInformation example_after_two_calls ''uriB'' = None \<and>
   getMementoErrorInformation
     (addMementoError example_after_two_calls ''uriB'' (Bytes ''ConnectionError()'')) ''uriB''
     \<noteq> None"
  using getMementoErrorInformation_before_and_after
    [of example_collaborators example_session
        "[AddMemento ''uriA'', AddMementoError ''gone'' (Str ''no memento'')]"
        example_after_two_calls "''uriB''" example_after_two_calls "Bytes ''ConnectionError()''"]
    example_run_two_calls
  by simp

subsection \<open>Registration of a single memento\<close>

text \<open>
  Claim C10. When the fetch of the URI-M and the fetch of its raw counterpart both
  return a response, \<^verbatim>\<open>addMemento\<close> appends the URI-M to the registered list and
  changes nothing else, whatever the two responses are: the status code and the headers
  are not read.
\<close>

theorem addMemento_registers_any_response:
  assumes "session self urim = Inr r"
    and "session self (generate_raw_urim urim) = Inr r'"
  shows "addMemento generate_raw_urim self urim =
           (Inr (), self\<lparr> urimlist := urimlist self @ [urim] \<rparr>)"
  using assms by (simp add: addMemento_def)

theorem addMemento_registers_any_response_witness:
  "example_session ''gone'' = Inr \<lparr> status_code = 404, headers = [], text_of = ''Not Found'' \<rparr> \<and>
   example_session (example_generate_raw_urim ''gone'') =
     Inr \<lparr> status_code = 404, headers = [], text_of = ''Not Found'' \<rparr> \<and>
   urimlist (snd (addMemento example_generate_raw_urim (init example_session) ''gone'')) = [''gone''] \<and>
   error_collection (snd (addMemento example_generate_raw_urim (init example_session) ''gone'')) = []"
  using addMemento_registers_any_response
    [of "init example_session" "''gone''"
        "\<lparr> status_code = 404, headers = [], text_of = ''Not Found'' \<rparr>"
        example_generate_raw_urim
        "\<lparr> status_code = 404, headers = [], text_of = ''Not Found'' \<rparr>"]
  by (simp add: example_session_def example_generate_raw_urim_def init_def)

subsection \<open>Raw content\<close>

text \<open>
  Claim C4. \<^verbatim>\<open>getMementoContent\<close> checks neither the registered list nor the Error
  Store: for \<open>uriA\<close>, never registered, it returns the body of the raw capture, and it
  returns the same body when an Error Record exists for \<open>uriA\<close>. The docstring of the
  method promises an exception in both cases.
\<close>

theorem getMementoContent_never_checks:
  "''uriA'' \<notin> set (urimlist (init example_session)) \<and>
   getMementoContent example_generate_raw_urim (init example_session) ''uriA''
     = Inr ''<p>same page</p>'' \<and>
   getMementoErrorInformation
     (addMementoError (init example_session) ''uriA'' (Str ''no memento'')) ''uriA''
     = Some (Str ''no memento'') \<and>
   getMementoContent example_generate_raw_urim
     (addMementoError (init example_session) ''uriA'' (Str ''no memento'')) ''uriA''
     = Inr ''<p>same page</p>''"
  by (simp add: getMementoContent_def getMementoErrorInformation_def addMementoError_def
        init_def example_session_def example_generate_raw_urim_def)

subsection \<open>Reading a TimeMap\<close>

text \<open>
  Claim C8, as stated, fails: \<open>urit1\<close> was never added, and \<^verbatim>\<open>getTimeMap\<close> returns
  the parsed mapping instead of failing.
\<close>

theorem getTimeMap_unregistered_counterexample:
  "''urit1'' \<notin> set (uritlist (init example_session)) \<and>
   getTimeMap example_convert (init example_session) ''urit1'' = Inr [''uriA'', ''uriB'']"
  by (simp add: getTimeMap_def init_def example_session_def example_convert_def)

text \<open>
  Claim C8, amended. \<^verbatim>\<open>getTimeMap\<close> does not read the list of registered URI-Ts:
  whenever the session returns a response for the URI-T and the parser accepts its body,
  the result is the parsed mapping, whatever the registered list holds.
\<close>

theorem getTimeMap_registered_or_not:
  assumes "session self urit = Inr r"
    and "convert_LinkTimeMap_to_dict (text_of r) = Inr d"
  shows "getTimeMap convert_LinkTimeMap_to_dict (self\<lparr> uritlist := registered \<rparr>) urit = Inr d"
  using assms by (simp add: getTimeMap_def)

theorem getTimeMap_registered_or_not_witness:
  "session (init example_session) ''urit1''
     = Inr \<lparr> status_code = 200, headers = [], text_of = ''uriA,uriB'' \<rparr> \<and>
   example_convert (text_of \<lparr> status_code = 200, headers = [], text_of = ''uriA,uriB'' \<rparr>)
     = Inr [''uriA'', ''uriB''] \<and>
   getTimeMap example_convert ((init example_session)\<lparr> uritlist := [] \<rparr>) ''urit1''
     = Inr [''uriA'', ''uriB''] \<and>
   getTimeMap example_convert ((init example_session)\<lparr> uritlist := [''urit1''] \<rparr>) ''urit1''
     = Inr [''uriA'', ''uriB'']"
  using getTimeMap_registered_or_not
    [of "init example_session" "''urit1''"
        "\<lparr> status_code = 200, headers = [], text_of = ''uriA,uriB'' \<rparr>"
        example_convert "[''uriA'', ''uriB'']" "[]"]
    getTimeMap_registered_or_not
    [of "init example_session" "''urit1''"
        "\<lparr> status_code = 200, headers = [], text_of = ''uriA,uriB'' \<rparr>"
        example_convert "[''uriA'', ''uriB'']" "[''urit1'']"]
  by (simp add: init_def example_session_def example_convert_def)

subsection \<open>The error gate of the derived values\<close>

text \<open>
  Claim C5. When an Error Record exists for a URI-M,
  \<^verbatim>\<open>getMementoContentWithoutBoilerplate\<close> and \<^verbatim>\<open>getRawSimhash\<close> both raise
  \<^verbatim>\<open>CollectionModelMementoErrorException\<close> and leave the model as it is: nothing is
  stored and the counters of the calls of \<^verbatim>\<open>justext\<close> and \<^verbatim>\<open>Simhash\<close> do not
  move.
\<close>

theorem error_record_blocks_derived_values:
  assumes "d \<in> set (error_collection self)" and "err_urim d = urim"
  shows "getMementoContentWithoutBoilerplate generate_raw_urim justext self urim =
           (Inl (CollectionModelMementoErrorException
                   (''Errors were recorded for URI-M '' @ urim)), self) \<and>
         getRawSimhash generate_raw_urim Simhash self urim =
           (Inl (CollectionModelMementoErrorException
                   (''Errors were recorded for URI-M '' @ urim)), self)"
proof -
  from assms have "\<not> no_error_document self urim"
    by (auto simp: no_error_document_def)
  then have "getMementoErrorInformation self urim \<noteq> None"
    by (simp add: getMementoErrorInformation_None_iff)
  then show ?thesis
    by (simp add: getMementoContentWithoutBoilerplate_def getRawSimhash_def)
qed

theorem error_record_blocks_derived_values_witness:
  "\<lparr> err_urim = ''uriA'', err_error_information = Str ''no memento'' \<rparr>
     \<in> set (error_collection (addMementoError (init example_session) ''uriA'' (Str ''no memento''))) \<and>
   fst (getMementoContentWithoutBoilerplate example_generate_raw_urim example_justext
          (addMementoError (init example_session) ''uriA'' (Str ''no memento'')) ''uriA'')
     = Inl (CollectionModelMementoErrorException ''Errors were recorded for URI-M uriA'') \<and>
   justext_calls (snd (getMementoContentWithoutBoilerplate example_generate_raw_urim example_justext
          (addMementoError (init example_session) ''uriA'' (Str ''no memento'')) ''uriA'')) = 0 \<and>
   fst (getRawSimhash example_generate_raw_urim example_Simhash
          (addMementoError (init example_session) ''uriA'' (Str ''no memento'')) ''uriA'')
     = Inl (CollectionModelMementoErrorException ''Errors were recorded for URI-M uriA'') \<and>
   Simhash_calls (snd (getRawSimhash example_generate_raw_urim example_Simhash
          (addMementoError (init example_session) ''uriA'' (Str ''no memento'')) ''uriA'')) = 0"
  using error_record_blocks_derived_values
    [of "\<lparr> err_urim = ''uriA'', err_error_information = Str ''no memento'' \<rparr>"
        "addMementoError (init example_session) ''uriA'' (Str ''no memento'')" "''uriA''"
        example_generate_raw_urim example_justext example_Simhash]
  by (simp add: addMementoError_def init_def)

subsection \<open>The most recent capture of a fingerprint\<close>

lemma matching_loop_all_resolved:
  "\<forall>d\<in>set cursor. capture_time strptime self (dv_urim d) \<noteq> None \<Longrightarrow>
   matching_loop strptime self cursor acc =
     Inr (acc @ map (\<lambda>d. (the (capture_time strptime self (dv_urim d)), dv_urim d)) cursor)"
proof (induction cursor arbitrary: acc)
  case Nil
  then show ?case by simp
next
  case (Cons d cursor)
  from Cons.prems obtain t where t: "capture_time strptime self (dv_urim d) = Some t"
    by auto
  then obtain hs v where
    hs: "getMementoHeaders self (dv_urim d) = Inr hs"
    and v: "map_of hs ''memento-datetime'' = Some v"
    and p: "strptime v = Some t"
    by (auto simp: capture_time_def split: sum.splits option.splits)
  have "matching_loop strptime self (d # cursor) acc =
        matching_loop strptime self cursor (acc @ [(t, dv_urim d)])"
    using hs v p by (simp add: Let_def)
  also have "\<dots> = Inr ((acc @ [(t, dv_urim d)]) @
        map (\<lambda>d. (the (capture_time strptime self (dv_urim d)), dv_urim d)) cursor)"
    using Cons.prems by (intro Cons.IH) simp
  finally show ?case using t by simp
qed

lemma pair_le_iff:
  fixes a c :: "'a::linorder" and b d :: "'b::linorder"
  shows "(a, b) \<le> (c, d) \<longleftrightarrow> a < c \<or> (a = c \<and> b \<le> d)"
  by (auto simp: less_eq_prod_def)

lemma descending_sort_not_Nil:
  fixes xs :: "'a::linorder list"
  assumes "xs \<noteq> []"
  shows "\<exists>first others. rev (sort xs) = first # others"
proof -
  have "length (rev (sort xs)) = length xs" by simp
  with assms have "rev (sort xs) \<noteq> []" by (metis length_0_conv)
  then show ?thesis by (cases "rev (sort xs)") simp_all
qed

lemma head_of_descending_sort:
  assumes "rev (sort xs) = first # others"
  shows "first \<in> set xs \<and> (\<forall>x\<in>set xs. x \<le> first)"
proof -
  from assms have s: "sort xs = rev others @ [first]"
    by (metis rev.simps(2) rev_rev_ident)
  have "set (sort xs) = set xs" by simp
  with s have mem: "set xs = set (rev others @ [first])" by simp
  have "sorted (rev others @ [first])" using s sorted_sort[of xs] by simp
  then have "\<forall>x\<in>set (rev others). x \<le> first"
    by (simp add: sorted_append)
  with mem show ?thesis by auto
qed

text \<open>
  Claim C7, amended. When at least one Derived Record carries the fingerprint and the
  capture time of every URI-M that carries it resolves (its fetch returns a response
  with a \<^verbatim>\<open>memento-datetime\<close> header that \<^verbatim>\<open>strptime\<close> accepts),
  \<^verbatim>\<open>getFirstURIMByRawSimhash\<close> returns a pair \<open>(mdt, urim)\<close> of the group that is the
  largest in the order of the tuples: every member of the group has an earlier capture
  time, or the same capture time and a URI-M that is not larger.
\<close>

theorem getFirstURIMByRawSimhash_most_recent:
  assumes some: "\<exists>d\<in>set (derived_collection self). dv_raw_simhash d = Some raw_simhash"
    and resolved: "\<forall>d\<in>set (derived_collection self). dv_raw_simhash d = Some raw_simhash \<longrightarrow>
                     capture_time strptime self (dv_urim d) \<noteq> None"
  shows "\<exists>mdt urim.
           getFirstURIMByRawSimhash strptime self raw_simhash = Inr (mdt, urim) \<and>
           (\<exists>d\<in>set (derived_collection self).
              dv_raw_simhash d = Some raw_simhash \<and> dv_urim d = urim \<and>
              capture_time strptime self urim = Some mdt) \<and>
           (\<forall>d\<in>set (derived_collection self). dv_raw_simhash d = Some raw_simhash \<longrightarrow>
              (\<exists>mdt'. capture_time strptime self (dv_urim d) = Some mdt' \<and>
                 (mdt' < mdt \<or> (mdt' = mdt \<and> dv_urim d \<le> urim))))"
proof -
  let ?cursor = "filter (\<lambda>d. dv_raw_simhash d = Some raw_simhash) (derived_collection self)"
  let ?pair = "\<lambda>d. (the (capture_time strptime self (dv_urim d)), dv_urim d)"
  let ?pairs = "map ?pair ?cursor"
  have all: "\<forall>d\<in>set ?cursor. capture_time strptime self (dv_urim d) \<noteq> None"
    using resolved by simp
  have loop: "matching_loop strptime self ?cursor [] = Inr ?pairs"
    using matching_loop_all_resolved[OF all, of "[]"] by simp
  from some have "?pairs \<noteq> []"
    by (auto simp: filter_empty_conv)
  from descending_sort_not_Nil[OF this]
  obtain first others where fo: "rev (sort ?pairs) = first # others"
    by blast
  obtain mdt urim where first: "first = (mdt, urim)" by (cases first)
  have res: "getFirstURIMByRawSimhash strptime self raw_simhash = Inr (mdt, urim)"
    using loop fo first by (simp add: getFirstURIMByRawSimhash_def)
  from head_of_descending_sort[OF fo] first
  have mem: "(mdt, urim) \<in> set ?pairs" and top: "\<forall>x\<in>set ?pairs. x \<le> (mdt, urim)"
    by auto
  from mem obtain d where d: "d \<in> set ?cursor" and dp: "?pair d = (mdt, urim)"
    by auto
  from d all have "capture_time strptime self (dv_urim d) \<noteq> None" by blast
  then obtain t0 where t0: "capture_time strptime self (dv_urim d) = Some t0"
    by blast
  from dp have du: "dv_urim d = urim" and tm: "the (capture_time strptime self (dv_urim d)) = mdt"
    by blast+
  from tm t0 have "t0 = mdt" by (simp only: option.sel)
  with t0 du have ct: "capture_time strptime self urim = Some mdt"
    by blast
  have part2: "\<exists>d\<in>set (derived_collection self).
              dv_raw_simhash d = Some raw_simhash \<and> dv_urim d = urim \<and>
              capture_time strptime self urim = Some mdt"
    using d ct du by auto
  have part3: "\<forall>d\<in>set (derived_collection self). dv_raw_simhash d = Some raw_simhash \<longrightarrow>
              (\<exists>mdt'. capture_time strptime self (dv_urim d) = Some mdt' \<and>
                 (mdt' < mdt \<or> (mdt' = mdt \<and> dv_urim d \<le> urim)))"
  proof (intro ballI impI)
    fix e assume e: "e \<in> set (derived_collection self)" and f: "dv_raw_simhash e = Some raw_simhash"
    then have ec: "e \<in> set ?cursor" by simp
    with all obtain t where t: "capture_time strptime self (dv_urim e) = Some t" by auto
    from ec top have "?pair e \<le> (mdt, urim)" by auto
    with t have "(t, dv_urim e) \<le> (mdt, urim)" by (simp only: option.sel)
    then have "t < mdt \<or> (t = mdt \<and> dv_urim e \<le> urim)"
      by (simp only: pair_le_iff)
    with t show "\<exists>mdt'. capture_time strptime self (dv_urim e) = Some mdt' \<and>
                 (mdt' < mdt \<or> (mdt' = mdt \<and> dv_urim e \<le> urim))" by blast
  qed
  from res part2 part3 show ?thesis by blast
qed

lemma session_addMemento_except:
  "session (snd (addMemento_except self urim e)) = session self"
  by (cases e) (simp_all add: addMementoError_def)

lemma session_addMemento:
  "session (snd (addMemento g self urim)) = session self"
  by (simp add: addMemento_def Let_def session_addMemento_except split: sum.splits)

lemma session_getRawSimhash:
  "session (snd (getRawSimhash g h self urim)) = session self"
  by (simp add: getRawSimhash_def Let_def split: sum.splits option.splits)

lemma session_getMementoContentWithoutBoilerplate:
  "session (snd (getMementoContentWithoutBoilerplate g j self urim)) = session self"
  by (simp add: getMementoContentWithoutBoilerplate_def Let_def split: sum.splits option.splits)

text \<open>
  Claim C7, as stated, fails. \<open>gone\<close> answers without a \<^verbatim>\<open>memento-datetime\<close>
  header; \<^verbatim>\<open>addMemento\<close> registers it and \<^verbatim>\<open>getRawSimhash\<close> stores its
  fingerprint, so a Derived Record exists for the fingerprint, and the lookup of the
  header raises \<^verbatim>\<open>KeyError\<close>.
\<close>

theorem getFirstURIMByRawSimhash_missing_header_counterexample:
  "(\<exists>d\<in>set (derived_collection example_gone_hashed). dv_raw_simhash d = Some ''9'') \<and>
   getRawSimhash example_generate_raw_urim example_Simhash example_gone_hashed ''gone''
     = (Inr ''9'', example_gone_hashed) \<and>
   getFirstURIMByRawSimhash example_strptime example_gone_hashed ''9''
     = Inl (KeyError ''memento-datetime'')"
proof -
  have dc: "derived_collection example_gone_hashed
            = [\<lparr> dv_urim = ''gone'', dv_raw_simhash = Some ''9'' \<rparr>]"
    by code_simp
  have ec: "error_collection example_gone_hashed = []"
    by code_simp
  have se: "session example_gone_hashed = example_session"
    by (simp add: example_gone_hashed_def init_def session_getRawSimhash session_addMemento)
  have a: "\<exists>d\<in>set (derived_collection example_gone_hashed). dv_raw_simhash d = Some ''9''"
    by (simp add: dc)
  have b: "getRawSimhash example_generate_raw_urim example_Simhash example_gone_hashed ''gone''
     = (Inr ''9'', example_gone_hashed)"
    by (simp add: getRawSimhash_def getMementoErrorInformation_def dc ec)
  have c: "getFirstURIMByRawSimhash example_strptime example_gone_hashed ''9''
     = Inl (KeyError ''memento-datetime'')"
    by (simp add: getFirstURIMByRawSimhash_def dc getMementoHeaders_def se example_session_def)
  from a b c show ?thesis by blast
qed

theorem getFirstURIMByRawSimhash_most_recent_witness:
  "(\<exists>d\<in>set (derived_collection example_duplicates). dv_raw_simhash d = Some ''16'') \<and>
   capture_time example_strptime example_duplicates ''uriA'' = Some (2020, 1, 1, 0, 0, 0) \<and>
   capture_time example_strptime example_duplicates ''uriB'' = Some (2021, 6, 1, 0, 0, 0) \<and>
   getFirstURIMByRawSimhash example_strptime example_duplicates ''16''
     = Inr ((2021, 6, 1, 0, 0, 0), ''uriB'')"
proof -
  have dc: "derived_collection example_duplicates
            = [\<lparr> dv_urim = ''uriA'', dv_raw_simhash = Some ''16'' \<rparr>,
               \<lparr> dv_urim = ''uriB'', dv_raw_simhash = Some ''16'' \<rparr>]"
    by code_simp
  have se: "session example_duplicates = example_session"
    by (simp add: example_duplicates_def init_def session_getRawSimhash)
  have ca: "capture_time example_strptime example_duplicates ''uriA'' = Some (2020, 1, 1, 0, 0, 0)"
    by (simp add: capture_time_def getMementoHeaders_def se example_session_def example_strptime_def)
  have cb: "capture_time example_strptime example_duplicates ''uriB'' = Some (2021, 6, 1, 0, 0, 0)"
    by (simp add: capture_time_def getMementoHeaders_def se example_session_def example_strptime_def)
  have h1: "\<exists>d\<in>set (derived_collection example_duplicates). dv_raw_simhash d = Some ''16''"
    by (simp add: dc)
  have h2: "\<forall>d\<in>set (derived_collection example_duplicates). dv_raw_simhash d = Some ''16'' \<longrightarrow>
              capture_time example_strptime example_duplicates (dv_urim d) \<noteq> None"
    by (simp add: dc ca cb)
  from getFirstURIMByRawSimhash_most_recent[OF h1 h2]
  obtain mdt urim where
    r: "getFirstURIMByRawSimhash example_strptime example_duplicates ''16'' = Inr (mdt, urim)"
    and m: "\<exists>d\<in>set (derived_collection example_duplicates).
              dv_raw_simhash d = Some ''16'' \<and> dv_urim d = urim \<and>
              capture_time example_strptime example_duplicates urim = Some mdt"
    and t: "\<forall>d\<in>set (derived_collection example_duplicates). dv_raw_simhash d = Some ''16'' \<longrightarrow>
              (\<exists>mdt'. capture_time example_strptime example_duplicates (dv_urim d) = Some mdt' \<and>
                 (mdt' < mdt \<or> (mdt' = mdt \<and> dv_urim d \<le> urim)))"
    by blast
  from t have tb: "(2021, 6, 1, 0, 0, 0) < mdt \<or> ((2021, 6, 1, 0, 0, 0) = mdt \<and> ''uriB'' \<le> urim)"
    by (simp add: dc cb)
  from m have "(urim = ''uriA'' \<and> mdt = (2020, 1, 1, 0, 0, 0)) \<or>
               (urim = ''uriB'' \<and> mdt = (2021, 6, 1, 0, 0, 0))"
    using ca cb by (auto simp: dc)
  with tb have "urim = ''uriB'' \<and> mdt = (2021, 6, 1, 0, 0, 0)"
    by (auto simp: less_prod_def)
  with r h1 ca cb show ?thesis by simp
qed

subsection \<open>Memoisation of the derived values\<close>

lemma find_append_Some:
  "find P xs = Some x \<Longrightarrow> find P (xs @ ys) = Some x"
  by (induction xs) (auto split: if_splits)

lemma find_append_None:
  "find P xs = None \<Longrightarrow> find P (xs @ ys) = find P ys"
  by (induction xs) (auto split: if_splits)

lemma find_update_set_other:
  "v \<noteq> urim \<Longrightarrow>
   find (\<lambda>d. dv_urim d = v) (update_set ds urim s) = find (\<lambda>d. dv_urim d = v) ds"
  by (induction ds) auto

lemma getMementoContentWithoutBoilerplate_cases:
  "snd (getMementoContentWithoutBoilerplate g j self urim) = self \<or>
   (\<exists>content. find (\<lambda>d. bp_urim d = urim) (bpfree_collection self) = None \<and>
      snd (getMementoContentWithoutBoilerplate g j self urim) =
        self\<lparr> justext_calls := Suc (justext_calls self),
              bpfree_collection := bpfree_collection self @
                [\<lparr> bp_urim = urim, bp_boilerplate_free_content = content,
                   bp_algorithm = ''justext'' \<rparr>] \<rparr>) \<or>
   snd (getMementoContentWithoutBoilerplate g j self urim) =
     self\<lparr> justext_calls := Suc (justext_calls self) \<rparr>"
  by (auto simp: getMementoContentWithoutBoilerplate_def Let_def split: sum.splits option.splits)

lemma getRawSimhash_cases:
  "snd (getRawSimhash g h self urim) = self \<or>
   (\<exists>s. find (\<lambda>d. dv_urim d = urim) (derived_collection self) = None \<and>
      snd (getRawSimhash g h self urim) =
        self\<lparr> Simhash_calls := Suc (Simhash_calls self),
              derived_collection := derived_collection self @
                [\<lparr> dv_urim = urim, dv_raw_simhash = Some s \<rparr>] \<rparr>) \<or>
   (\<exists>s. stored_raw_simhash self urim = None \<and>
      snd (getRawSimhash g h self urim) =
        self\<lparr> Simhash_calls := Suc (Simhash_calls self),
              derived_collection := update_set (derived_collection self) urim s \<rparr>)"
  by (auto simp: getRawSimhash_def stored_raw_simhash_def Let_def split: sum.splits option.splits)

lemma stored_boilerplate_free_kept_by_get:
  assumes "stored_boilerplate_free self u = Some t"
  shows "stored_boilerplate_free (snd (getMementoContentWithoutBoilerplate g j self urim)) u = Some t"
  using getMementoContentWithoutBoilerplate_cases[of g j self urim] assms
  by (auto simp: stored_boilerplate_free_def find_append_Some)

lemma bpfree_getRawSimhash:
  "bpfree_collection (snd (getRawSimhash g h self urim)) = bpfree_collection self"
  by (simp add: getRawSimhash_def Let_def split: sum.splits option.splits)

lemma derived_getMementoContentWithoutBoilerplate:
  "derived_collection (snd (getMementoContentWithoutBoilerplate g j self urim)) = derived_collection self"
  by (simp add: getMementoContentWithoutBoilerplate_def Let_def split: sum.splits option.splits)

lemma stored_raw_simhash_kept_by_get:
  assumes "stored_raw_simhash self u = Some s"
  shows "stored_raw_simhash (snd (getRawSimhash g h self urim)) u = Some s"
proof -
  consider
    (same) "snd (getRawSimhash g h self urim) = self"
  | (ins) s' where "find (\<lambda>d. dv_urim d = urim) (derived_collection self) = None"
      "snd (getRawSimhash g h self urim) =
        self\<lparr> Simhash_calls := Suc (Simhash_calls self),
              derived_collection := derived_collection self @
                [\<lparr> dv_urim = urim, dv_raw_simhash = Some s' \<rparr>] \<rparr>"
  | (upd) s' where "stored_raw_simhash self urim = None"
      "snd (getRawSimhash g h self urim) =
        self\<lparr> Simhash_calls := Suc (Simhash_calls self),
              derived_collection := update_set (derived_collection self) urim s' \<rparr>"
    using getRawSimhash_cases[of g h self urim] by blast
  then show ?thesis
  proof cases
    case same
    with assms show ?thesis by simp
  next
    case ins
    from assms obtain d where "find (\<lambda>d. dv_urim d = u) (derived_collection self) = Some d"
      by (auto simp: stored_raw_simhash_def split: option.splits)
    with assms ins(2) show ?thesis
      by (simp add: stored_raw_simhash_def find_append_Some)
  next
    case upd
    with assms have "u \<noteq> urim" by auto
    with assms upd(2) show ?thesis
      by (simp add: stored_raw_simhash_def find_update_set_other)
  qed
qed

lemma addMemento_except_collections:
  "bpfree_collection (snd (addMemento_except self urim e)) = bpfree_collection self"
  "derived_collection (snd (addMemento_except self urim e)) = derived_collection self"
  by (cases e; simp add: addMementoError_def)+

lemma exec_collections:
  assumes "exec c self x = Some after"
  shows "(\<forall>urim. x \<noteq> GetMementoContentWithoutBoilerplate urim)
            \<longrightarrow> bpfree_collection after = bpfree_collection self"
    and "(\<forall>urim. x \<noteq> GetRawSimhash urim)
            \<longrightarrow> derived_collection after = derived_collection self"
proof -
  show "(\<forall>urim. x \<noteq> GetMementoContentWithoutBoilerplate urim)
            \<longrightarrow> bpfree_collection after = bpfree_collection self"
  proof (cases x)
    case (AddManyMementos urims draws)
    with assms obtain res where
      "addManyMementos (raw_urim_of c) (delay_of c) self urims draws = Some (res, after)"
      by auto
    from addManyMementos_only_adds_errors[OF this] show ?thesis by auto
  qed (use assms in \<open>auto simp: addTimeMap_def addMemento_def addMementoError_def Let_def
         addMemento_except_collections bpfree_getRawSimhash
         derived_getMementoContentWithoutBoilerplate
         split: sum.splits request_exception.splits\<close>)
  show "(\<forall>urim. x \<noteq> GetRawSimhash urim)
            \<longrightarrow> derived_collection after = derived_collection self"
  proof (cases x)
    case (AddManyMementos urims draws)
    with assms obtain res where
      "addManyMementos (raw_urim_of c) (delay_of c) self urims draws = Some (res, after)"
      by auto
    from addManyMementos_only_adds_errors[OF this] show ?thesis by auto
  qed (use assms in \<open>auto simp: addTimeMap_def addMemento_def addMementoError_def Let_def
         addMemento_except_collections bpfree_getRawSimhash
         derived_getMementoContentWithoutBoilerplate
         split: sum.splits request_exception.splits\<close>)
qed

lemma exec_keeps_boilerplate_free:
  assumes "exec c self x = Some after" and "stored_boilerplate_free self u = Some t"
  shows "stored_boilerplate_free after u = Some t"
proof (cases "\<exists>urim. x = GetMementoContentWithoutBoilerplate urim")
  case True
  with assms stored_boilerplate_free_kept_by_get show ?thesis by auto
next
  case False
  with exec_collections(1)[OF assms(1)] assms(2) show ?thesis
    by (simp add: stored_boilerplate_free_def)
qed

lemma exec_keeps_raw_simhash:
  assumes "exec c self x = Some after" and "stored_raw_simhash self u = Some s"
  shows "stored_raw_simhash after u = Some s"
proof (cases "\<exists>urim. x = GetRawSimhash urim")
  case True
  with assms stored_raw_simhash_kept_by_get show ?thesis by auto
next
  case False
  with exec_collections(2)[OF assms(1)] assms(2) show ?thesis
    by (simp add: stored_raw_simhash_def)
qed

lemma getMementoContentWithoutBoilerplate_twice:
  assumes "getMementoContentWithoutBoilerplate g j self urim = (Inr t, self')"
  shows "getMementoContentWithoutBoilerplate g j self' urim = (Inr t, self')"
proof -
  from assms have gate: "getMementoErrorInformation self urim = None"
    by (auto simp: getMementoContentWithoutBoilerplate_def split: if_splits)
  have ec: "error_collection self' = error_collection self"
    using getMementoContentWithoutBoilerplate_errors[of g j self urim] assms by simp
  have gate': "getMementoErrorInformation self' urim = None"
    using gate ec by (simp add: getMementoErrorInformation_None_iff no_error_document_def)
  have "stored_boilerplate_free self' urim = Some t"
    using assms gate
    by (auto simp: getMementoContentWithoutBoilerplate_def stored_boilerplate_free_def Let_def
          find_append_None split: sum.splits option.splits)
  then obtain b where "find (\<lambda>d. bp_urim d = urim) (bpfree_collection self') = Some b"
    and "bp_boilerplate_free_content b = t"
    by (auto simp: stored_boilerplate_free_def)
  with gate' show ?thesis
    by (simp add: getMementoContentWithoutBoilerplate_def)
qed

lemma stored_boilerplate_free_not_recomputed:
  assumes "stored_boilerplate_free self urim = Some t"
  shows "snd (getMementoContentWithoutBoilerplate g j self urim) = self"
  using assms
  by (auto simp: getMementoContentWithoutBoilerplate_def stored_boilerplate_free_def)

lemma stored_raw_simhash_not_recomputed:
  assumes "stored_raw_simhash self urim = Some s"
  shows "snd (getRawSimhash g h self urim) = self"
  using assms
  by (auto simp: getRawSimhash_def stored_raw_simhash_def split: option.splits)

text \<open>
  Claim C6. A call of \<^verbatim>\<open>getMementoContentWithoutBoilerplate\<close> that returns a text,
  repeated on the model it leaves, returns the same text and leaves the model as it is,
  the counter of the calls of \<^verbatim>\<open>justext\<close> included. Where a boilerplate-free text
  (a fingerprint) is stored for a URI-M, the method that computes it changes nothing,
  so nothing is computed again; and after any call that ends, whatever the call and the
  URI it is for, the stored text (fingerprint) of the URI-M is the one stored before.
\<close>

theorem derived_values_memoised:
  "(getMementoContentWithoutBoilerplate g j self urim = (Inr t, self')
      \<longrightarrow> getMementoContentWithoutBoilerplate g j self' urim = (Inr t, self')) \<and>
   (stored_boilerplate_free m1 u1 = Some t1
      \<longrightarrow> snd (getMementoContentWithoutBoilerplate g j m1 u1) = m1) \<and>
   (stored_raw_simhash m2 u2 = Some s2
      \<longrightarrow> snd (getRawSimhash g h m2 u2) = m2) \<and>
   (exec c m3 x3 = Some after3 \<and> stored_boilerplate_free m3 u3 = Some t3
      \<longrightarrow> stored_boilerplate_free after3 u3 = Some t3) \<and>
   (exec c m4 x4 = Some after4 \<and> stored_raw_simhash m4 u4 = Some s4
      \<longrightarrow> stored_raw_simhash after4 u4 = Some s4)"
proof (intro conjI impI)
  assume "getMementoContentWithoutBoilerplate g j self urim = (Inr t, self')"
  then show "getMementoContentWithoutBoilerplate g j self' urim = (Inr t, self')"
    by (rule getMementoContentWithoutBoilerplate_twice)
next
  assume "stored_boilerplate_free m1 u1 = Some t1"
  then show "snd (getMementoContentWithoutBoilerplate g j m1 u1) = m1"
    by (rule stored_boilerplate_free_not_recomputed)
next
  assume "stored_raw_simhash m2 u2 = Some s2"
  then show "snd (getRawSimhash g h m2 u2) = m2"
    by (rule stored_raw_simhash_not_recomputed)
next
  assume "exec c m3 x3 = Some after3 \<and> stored_boilerplate_free m3 u3 = Some t3"
  then show "stored_boilerplate_free after3 u3 = Some t3"
    using exec_keeps_boilerplate_free by blast
next
  assume "exec c m4 x4 = Some after4 \<and> stored_raw_simhash m4 u4 = Some s4"
  then show "stored_raw_simhash after4 u4 = Some s4"
    using exec_keeps_raw_simhash by blast
qed

lemma example_extracted_first_call:
  "getMementoContentWithoutBoilerplate example_generate_raw_urim example_justext
     (init example_session) ''uriA'' = (Inr (''same page'' @ [CHR 0x0A]), example_extracted)"
  by (simp add: getMementoContentWithoutBoilerplate_def getMementoErrorInformation_def
        getMementoContent_def init_def example_session_def example_generate_raw_urim_def
        example_justext_def example_extracted_def Let_def)

lemma example_duplicates_stored:
  "stored_raw_simhash example_duplicates ''uriA'' = Some ''16''"
  by code_simp

theorem derived_values_memoised_witness:
  "getMementoContentWithoutBoilerplate example_generate_raw_urim example_justext
     (init example_session) ''uriA'' = (Inr (''same page'' @ [CHR 0x0A]), example_extracted) \<and>
   getMementoContentWithoutBoilerplate example_generate_raw_urim example_justext
     example_extracted ''uriA'' = (Inr (''same page'' @ [CHR 0x0A]), example_extracted) \<and>
   justext_calls example_extracted = 1 \<and>
   stored_boilerplate_free example_extracted ''uriA'' = Some (''same page'' @ [CHR 0x0A]) \<and>
   snd (getMementoContentWithoutBoilerplate example_generate_raw_urim example_justext
          example_extracted ''uriA'') = example_extracted \<and>
   stored_raw_simhash example_duplicates ''uriA'' = Some ''16'' \<and>
   snd (getRawSimhash example_generate_raw_urim example_Simhash example_duplicates ''uriA'')
     = example_duplicates \<and>
   stored_boilerplate_free
     (snd (getMementoContentWithoutBoilerplate example_generate_raw_urim example_justext
             example_extracted ''uriB'')) ''uriA'' = Some (''same page'' @ [CHR 0x0A]) \<and>
   stored_raw_simhash
     (snd (getRawSimhash example_generate_raw_urim example_Simhash example_duplicates ''gone''))
     ''uriA'' = Some ''16''"
proof -
  have sb: "stored_boilerplate_free example_extracted ''uriA'' = Some (''same page'' @ [CHR 0x0A])"
    by (simp add: stored_boilerplate_free_def example_extracted_def)
  have e3: "exec example_collaborators example_extracted
              (GetMementoContentWithoutBoilerplate ''uriB'')
            = Some (snd (getMementoContentWithoutBoilerplate example_generate_raw_urim
                           example_justext example_extracted ''uriB''))"
    by (simp add: example_collaborators_def)
  have e4: "exec example_collaborators example_duplicates (GetRawSimhash ''gone'')
            = Some (snd (getRawSimhash example_generate_raw_urim example_Simhash
                           example_duplicates ''gone''))"
    by (simp add: example_collaborators_def)
  have jc: "justext_calls example_extracted = 1"
    by (simp add: example_extracted_def)
  show ?thesis
    using derived_values_memoised
      [where g = example_generate_raw_urim and j = example_justext
         and h = example_Simhash and c = example_collaborators
         and self = "init example_session" and urim = "''uriA''"
         and t = "''same page'' @ [CHR 0x0A]" and self' = example_extracted
         and ?m1.0 = example_extracted and ?u1.0 = "''uriA''"
         and ?t1.0 = "''same page'' @ [CHR 0x0A]"
         and ?m2.0 = example_duplicates and ?u2.0 = "''uriA''" and ?s2.0 = "''16''"
         and ?m3.0 = example_extracted
         and ?x3.0 = "GetMementoContentWithoutBoilerplate ''uriB''"
         and ?after3.0 = "snd (getMementoContentWithoutBoilerplate example_generate_raw_urim
                           example_justext example_extracted ''uriB'')"
         and ?u3.0 = "''uriA''" and ?t3.0 = "''same page'' @ [CHR 0x0A]"
         and ?m4.0 = example_duplicates and ?x4.0 = "GetRawSimhash ''gone''"
         and ?after4.0 = "snd (getRawSimhash example_generate_raw_urim example_Simhash
                           example_duplicates ''gone'')"
         and ?u4.0 = "''uriA''" and ?s4.0 = "''16''"]
      example_extracted_first_call example_duplicates_stored sb e3 e4 jc
    by simp
qed

subsection \<open>Classification by several measures\<close>

text \<open>
  Claim C1. \<^verbatim>\<open>detect_off_topic\<close> reads the first measure of the mapping only: its
  result for a mapping is its result for the first item alone. With the measures
  \<open>m1\<close> (threshold 0.5, GE) and \<open>m2\<close> (threshold 0.3, LE) it returns \<open>uriC\<close>, whose
  score 0.5 fails the threshold of \<open>m2\<close>, where the classification over both measures
  returns \<open>uriA\<close> alone.
\<close>

theorem detect_off_topic_reads_first_measure_only:
  "detect_off_topic registry collection_model ((name, threshold) # rest) num_topics =
     detect_off_topic registry collection_model [(name, threshold)] num_topics \<and>
   detect_off_topic example_supported_timemap_measures (init example_session)
     [(''m1'', 0.5), (''m2'', 0.3)] None = Inr (Some [''uriA'', ''uriC'']) \<and>
   classify_spec example_supported_timemap_measures (init example_session)
     [(''m1'', 0.5), (''m2'', 0.3)] None = Inr [''uriA'']"
proof (intro conjI)
  show "detect_off_topic registry collection_model ((name, threshold) # rest) num_topics =
     detect_off_topic registry collection_model [(name, threshold)] num_topics"
    by (simp add: detect_off_topic_def)
  show "detect_off_topic example_supported_timemap_measures (init example_session)
     [(''m1'', 0.5), (''m2'', 0.3)] None = Inr (Some [''uriA'', ''uriC''])"
    by (simp add: detect_off_topic_def example_supported_timemap_measures_def
          example_measure_m1_def MeasureModel_new_def threshold_and_return_def
          calculate_offtopic_by_measure_def calculate_overall_offtopic_status_def
          get_list_of_ontopic_def get_TimeMap_URIs_def get_Memento_URIs_in_TimeMap_def
          ontopic_step_def get_overall_off_topic_status_def Let_def)
  show "classify_spec example_supported_timemap_measures (init example_session)
     [(''m1'', 0.5), (''m2'', 0.3)] None = Inr [''uriA'']"
    by (simp add: classify_spec_def example_supported_timemap_measures_def
          example_measure_m1_def example_measure_m2_def MeasureModel_new_def
          calculate_offtopic_by_measure_def calculate_overall_offtopic_status_def
          get_list_of_ontopic_def get_TimeMap_URIs_def get_Memento_URIs_in_TimeMap_def
          ontopic_step_def get_overall_off_topic_status_def Let_def)
qed

subsection \<open>The polling loop of the batch ingestion\<close>

lemma futures_after_submit:
  assumes "\<forall>u\<in>set (fst st). snd st u = Some (futuressession_get dl self u)"
  shows "\<forall>u\<in>set (fst (foldl (submit g dl self) st urims)).
           snd (foldl (submit g dl self) st urims) u = Some (futuressession_get dl self u)"
  using assms
proof (induction urims arbitrary: st)
  case Nil
  then show ?case by simp
next
  case (Cons uri urims)
  have "\<forall>u\<in>set (fst (submit g dl self st uri)).
          snd (submit g dl self st uri) u = Some (futuressession_get dl self u)"
    using Cons.prems by (auto simp: submit_def Let_def)
  from Cons.IH[OF this] show ?case by simp
qed

lemma poll_loop_KeyError:
  "ws \<noteq> [] \<Longrightarrow> futures (ws ! (d mod length ws)) = None \<Longrightarrow>
   poll_loop self ws futures now (d # draws) =
     Some (Inl (KeyError (ws ! (d mod length ws))), self)"
  by (cases ws) (simp_all add: Let_def)

lemma poll_loop_pending:
  "ws \<noteq> [] \<Longrightarrow> futures (ws ! (d mod length ws)) = Some f \<Longrightarrow> \<not> future_done f now \<Longrightarrow>
   poll_loop self ws futures now (d # draws) = poll_loop self ws futures (Suc now) draws"
  by (cases ws) (simp_all add: Let_def)

lemma poll_loop_exception:
  "ws \<noteq> [] \<Longrightarrow> futures (ws ! (d mod length ws)) = Some f \<Longrightarrow> future_done f now \<Longrightarrow>
   outcome f = Inl e \<Longrightarrow>
   poll_loop self ws futures now (d # draws) =
     poll_loop (addMementoError self (ws ! (d mod length ws)) (Bytes (repr e)))
       ws futures (Suc now) draws"
  by (cases ws) (simp_all add: Let_def)

lemma poll_loop_response:
  "ws \<noteq> [] \<Longrightarrow> futures (ws ! (d mod length ws)) = Some f \<Longrightarrow> future_done f now \<Longrightarrow>
   outcome f = Inr r \<Longrightarrow>
   poll_loop self ws futures now (d # draws) =
     poll_loop
       (if map_of (headers r) ''memento-datetime'' = None
        then addMementoError self (ws ! (d mod length ws))
               (Str (''URI-M '' @ ws ! (d mod length ws) @ '' does not produce a memento''))
        else self)
       (remove1 (ws ! (d mod length ws)) ws)
       (futures(ws ! (d mod length ws) := None)) (Suc now) draws"
  by (cases ws) (simp_all add: Let_def)

lemma poll_loop_out_of_draws:
  "ws \<noteq> [] \<Longrightarrow> poll_loop self ws futures now [] = None"
  by (cases ws) simp_all

lemma poll_loop_stuck:
  "u \<in> set ws \<Longrightarrow> futures u = Some f \<Longrightarrow> outcome f = Inl e \<Longrightarrow>
   poll_loop self ws futures now draws \<noteq> Some (Inr (), m')"
proof (induction draws arbitrary: self ws futures now)
  case Nil
  then have "ws \<noteq> []" by auto
  then show ?case by (simp add: poll_loop_out_of_draws)
next
  case (Cons d draws)
  from Cons.prems(1) have ne: "ws \<noteq> []" by auto
  let ?uri = "ws ! (d mod length ws)"
  show ?case
  proof (cases "futures ?uri")
    case None
    with ne show ?thesis by (simp add: poll_loop_KeyError)
  next
    case (Some f')
    show ?thesis
    proof (cases "future_done f' now")
      case False
      with ne Some Cons.IH[where ws = ws and futures = futures, OF Cons.prems] show ?thesis
        by (simp add: poll_loop_pending)
    next
      case True
      show ?thesis
      proof (cases "outcome f'")
        case (Inl e')
        with ne Some True Cons.IH[where ws = ws and futures = futures, OF Cons.prems]
        show ?thesis
          by (simp add: poll_loop_exception)
      next
        case (Inr r)
        have neq: "?uri \<noteq> u"
          using Some Inr Cons.prems(2,3) by auto
        then have mem: "u \<in> set (remove1 ?uri ws)"
          using Cons.prems(1) by (metis in_set_remove1)
        have fut: "(futures(?uri := None)) u = Some f"
          using neq Cons.prems(2) by simp
        from Cons.IH[where ws = "remove1 ?uri ws" and futures = "futures(?uri := None)",
                     OF mem fut Cons.prems(3)] ne Some True Inr
        show ?thesis by (simp only: poll_loop_response not_False_eq_True)
      qed
    qed
  qed
qed

text \<open>
  Claim C2. When the fetch of one of the URI-Ms raises a request exception,
  \<^verbatim>\<open>addManyMementos\<close> never ends normally, however many random draws it is given:
  the \<^verbatim>\<open>continue\<close> of the \<^verbatim>\<open>except\<close> clause skips the removal from the working
  list, so the list never becomes empty. (The only other way out of the loop is the
  \<^verbatim>\<open>KeyError\<close> of \<^verbatim>\<open>futures[uri]\<close> when a URI-M is listed twice.)
\<close>

theorem addManyMementos_never_ends_after_request_exception:
  assumes "u \<in> set urims" and "session self u = Inl e"
  shows "addManyMementos generate_raw_urim delay self urims draws \<noteq> Some (Inr (), self')"
proof -
  let ?st = "foldl (submit generate_raw_urim delay self) ([], Map.empty) urims"
  have "\<forall>u\<in>set (fst ?st). snd ?st u = Some (futuressession_get delay self u)"
    by (rule futures_after_submit) simp
  moreover have ws: "fst ?st = urims"
    by (simp add: fst_foldl_submit)
  ultimately have fut: "snd ?st u = Some (futuressession_get delay self u)"
    using assms(1) by simp
  have out: "outcome (futuressession_get delay self u) = Inl e"
    using assms(2) by (simp add: futuressession_get_def)
  have "u \<in> set (fst ?st)" using assms(1) ws by simp
  from this fut out have "poll_loop self (fst ?st) (snd ?st) 0 draws \<noteq> Some (Inr (), self')"
    by (rule poll_loop_stuck)
  then show ?thesis by (simp add: addManyMementos_def Let_def)
qed

theorem addManyMementos_never_ends_after_request_exception_witness:
  "''timeout'' \<in> set [''uriA'', ''timeout''] \<and>
   session (init example_session) ''timeout'' = Inl (RequestException ''ReadTimeout()'') \<and>
   addManyMementos example_generate_raw_urim (\<lambda>uri. Some 0) (init example_session)
     [''uriA'', ''timeout''] [1, 0, 0, 0, 0, 0, 0, 0]
     \<noteq> Some (Inr (), init example_session) \<and>
   map_option (\<lambda>p. (fst p, error_collection (snd p)))
     (addManyMementos example_generate_raw_urim (\<lambda>uri. Some 0) (init example_session)
        [''uriA'', ''timeout''] [1, 0, 0, 0, 0, 0, 0, 0]) = None"
proof -
  have a: "''timeout'' \<in> set [''uriA'', ''timeout'']" by simp
  have b: "session (init example_session) ''timeout'' = Inl (RequestException ''ReadTimeout()'')"
    by (simp add: init_def example_session_def)
  have c: "map_option (\<lambda>p. (fst p, error_collection (snd p)))
     (addManyMementos example_generate_raw_urim (\<lambda>uri. Some 0) (init example_session)
        [''uriA'', ''timeout''] [1, 0, 0, 0, 0, 0, 0, 0]) = None"
    by code_simp
  from addManyMementos_never_ends_after_request_exception[OF a b] a b c
  show ?thesis by blast
qed

subsection \<open>Convergence of the batch ingestion\<close>

lemma count_remove1:
  "distinct ws \<Longrightarrow> x \<in> set ws \<Longrightarrow>
   length (filter P ws) = (if P x then 1 else 0) + length (filter P (remove1 x ws))"
  by (induction ws) auto

lemma poll_loop_converges:
  assumes "distinct ws"
    and "\<forall>u\<in>set ws. \<exists>t r. futures u = Some (futuressession_get dl s0 u) \<and>
                            dl u = Some t \<and> t \<le> T \<and> session s0 u = Inr r"
    and "(T - now) + length ws \<le> length draws"
  shows "\<exists>self'. poll_loop self ws futures now draws = Some (Inr (), self') \<and>
           urimlist self' = urimlist self \<and>
           length (error_collection self') =
             length (error_collection self) + length (filter (fails_validation s0) ws)"
  using assms
proof (induction draws arbitrary: self ws futures now)
  case Nil
  then have "ws = []" by simp
  then show ?case by simp
next
  case (Cons d draws)
  show ?case
  proof (cases "ws = []")
    case True
    then show ?thesis by simp
  next
    case ne: False
    let ?uri = "ws ! (d mod length ws)"
    have mem: "?uri \<in> set ws" using ne by simp
    with Cons.prems(2) obtain t r where
      fut: "futures ?uri = Some (futuressession_get dl s0 ?uri)"
      and dl: "dl ?uri = Some t" and tT: "t \<le> T" and resp: "session s0 ?uri = Inr r"
      by blast
    let ?f = "futuressession_get dl s0 ?uri"
    have out: "outcome ?f = Inr r" using resp by (simp add: futuressession_get_def)
    show ?thesis
    proof (cases "future_done ?f now")
      case False
      then have "now < t" using dl by (simp add: future_done_def futuressession_get_def)
      with tT Cons.prems(3) have budget: "(T - Suc now) + length ws \<le> length draws"
        by simp
      from Cons.IH[where ws = ws and futures = futures and now = "Suc now" and self = self,
                   OF Cons.prems(1) Cons.prems(2) budget]
      show ?thesis using ne fut False by (simp add: poll_loop_pending)
    next
      case True
      let ?self1 = "if map_of (headers r) ''memento-datetime'' = None
                    then addMementoError self ?uri
                           (Str (''URI-M '' @ ?uri @ '' does not produce a memento''))
                    else self"
      have step: "poll_loop self ws futures now (d # draws) =
                  poll_loop ?self1 (remove1 ?uri ws) (futures(?uri := None)) (Suc now) draws"
        using ne fut True out by (rule poll_loop_response)
      have dist: "distinct (remove1 ?uri ws)" using Cons.prems(1) by simp
      have futs: "\<forall>u\<in>set (remove1 ?uri ws). \<exists>t r.
                    (futures(?uri := None)) u = Some (futuressession_get dl s0 u) \<and>
                    dl u = Some t \<and> t \<le> T \<and> session s0 u = Inr r"
      proof
        fix u assume u: "u \<in> set (remove1 ?uri ws)"
        then have "u \<noteq> ?uri" and "u \<in> set ws"
          using Cons.prems(1) by auto
        with Cons.prems(2) show "\<exists>t r.
                    (futures(?uri := None)) u = Some (futuressession_get dl s0 u) \<and>
                    dl u = Some t \<and> t \<le> T \<and> session s0 u = Inr r"
          by simp
      qed
      have "length (remove1 ?uri ws) = length ws - 1"
        using mem by (simp add: length_remove1)
      with ne Cons.prems(3) have budget: "(T - Suc now) + length (remove1 ?uri ws) \<le> length draws"
        by (cases ws) auto
      from Cons.IH[where ws = "remove1 ?uri ws" and futures = "futures(?uri := None)"
                     and now = "Suc now" and self = ?self1, OF dist futs budget]
      obtain self' where
        run: "poll_loop ?self1 (remove1 ?uri ws) (futures(?uri := None)) (Suc now) draws
              = Some (Inr (), self')"
        and reg: "urimlist self' = urimlist ?self1"
        and cnt: "length (error_collection self') =
                    length (error_collection ?self1) +
                    length (filter (fails_validation s0) (remove1 ?uri ws))"
        by blast
      have fv: "fails_validation s0 ?uri \<longleftrightarrow> map_of (headers r) ''memento-datetime'' = None"
        using resp by (simp add: fails_validation_def)
      have reg1: "urimlist ?self1 = urimlist self"
        by (simp add: addMementoError_def)
      have cnt1: "length (error_collection ?self1) =
                  length (error_collection self) + (if fails_validation s0 ?uri then 1 else 0)"
        using fv by (simp add: addMementoError_def)
      have "length (filter (fails_validation s0) ws) =
            (if fails_validation s0 ?uri then 1 else 0) +
            length (filter (fails_validation s0) (remove1 ?uri ws))"
        using Cons.prems(1) mem by (rule count_remove1)
      with cnt cnt1 have "length (error_collection self') =
             length (error_collection self) + length (filter (fails_validation s0) ws)"
        by simp
      with step run reg reg1 show ?thesis by simp
    qed
  qed
qed

text \<open>
  Claim C3. For distinct URI-Ms whose fetches all settle (by the poll \<open>T\<close>) with a
  response, \<^verbatim>\<open>addManyMementos\<close> ends normally for every sequence of at least
  \<open>T + n\<close> draws, it has added one Error Record for each URI-M that fails the header
  check, and the registered list is the one it started with: the method never appends
  to \<^verbatim>\<open>urimlist\<close>.
\<close>

theorem addManyMementos_converges_without_registering:
  assumes "distinct urims"
    and "\<forall>u\<in>set urims. \<exists>r. session self u = Inr r"
    and "\<forall>u\<in>set urims. \<exists>t. delay u = Some t \<and> t \<le> T"
    and "T + length urims \<le> length draws"
  shows "\<exists>self'. addManyMementos generate_raw_urim delay self urims draws = Some (Inr (), self') \<and>
           urimlist self' = urimlist self \<and>
           length (error_collection self') =
             length (error_collection self) + length (filter (fails_validation self) urims)"
proof -
  let ?st = "foldl (submit generate_raw_urim delay self) ([], Map.empty) urims"
  have futs: "\<forall>u\<in>set (fst ?st). snd ?st u = Some (futuressession_get delay self u)"
    by (rule futures_after_submit) simp
  have ws: "fst ?st = urims"
    by (simp add: fst_foldl_submit)
  have a: "distinct (fst ?st)" using assms(1) ws by simp
  have b: "\<forall>u\<in>set (fst ?st). \<exists>t r. snd ?st u = Some (futuressession_get delay self u) \<and>
                            delay u = Some t \<and> t \<le> T \<and> session self u = Inr r"
    using futs assms(2,3) ws by (metis (no_types, lifting))
  have c: "(T - 0) + length (fst ?st) \<le> length draws" using assms(4) ws by simp
  from poll_loop_converges[where ws = "fst ?st" and futures = "snd ?st" and dl = delay
                             and ?s0.0 = self and T = T and now = 0 and draws = draws
                             and self = self, OF a b c]
  show ?thesis by (simp add: addManyMementos_def Let_def ws)
qed

theorem addManyMementos_converges_without_registering_witness:
  "distinct example_batch \<and> length example_batch = 10 \<and>
   length (filter (fails_validation (init example_batch_session)) example_batch) = 3 \<and>
   (\<exists>self'. addManyMementos example_generate_raw_urim (\<lambda>uri. Some 2)
              (init example_batch_session) example_batch
              [3, 1, 4, 1, 5, 9, 2, 6, 5, 3, 5, 8] = Some (Inr (), self') \<and>
            urimlist self' = [] \<and> length (error_collection self') = 3)"
proof -
  have h1: "distinct example_batch"
    by (simp add: example_batch_def)
  have h2: "\<forall>u\<in>set example_batch. \<exists>r. session (init example_batch_session) u = Inr r"
    by (simp add: example_batch_def init_def example_batch_session_def)
  have h3: "\<forall>u\<in>set example_batch. \<exists>t. (\<lambda>uri. Some 2) u = Some t \<and> t \<le> (2::nat)"
    by simp
  have h4: "2 + length example_batch \<le> length [3, 1, 4, 1, 5, 9, 2, 6, 5, 3, 5, 8::nat]"
    by (simp add: example_batch_def)
  have n: "length example_batch = 10"
    by (simp add: example_batch_def)
  have cnt: "length (filter (fails_validation (init example_batch_session)) example_batch) = 3"
    by (simp add: example_batch_def fails_validation_def init_def example_batch_session_def)
  have start: "urimlist (init example_batch_session) = []"
    "error_collection (init example_batch_session) = []"
    by (simp_all add: init_def)
  from addManyMementos_converges_without_registering
         [where generate_raw_urim = example_generate_raw_urim, OF h1 h2 h3 h4]
  show ?thesis
    using h1 n cnt start by simp
qed

end
